theory Spec2Isabelle
  imports Complex_Main "HOL-Library.Monad_Syntax"
begin

section \<open>The Caffe serving session (caffe\_serving\_session.cc)\<close>

text \<open>
  A shallow embedding of \<^verbatim>\<open>CaffeServingSession\<close>: the constructor with
  \<^verbatim>\<open>BatchSizeOf\<close>, \<^verbatim>\<open>Run\<close>, \<^verbatim>\<open>Reshape\<close> and
  \<^verbatim>\<open>CopyTrainedLayersFromBinaryProto\<close>.

  Every operation returns an \<open>option\<close>. \<open>None\<close> stands for an execution with no
  return at all: an uncaught \<^verbatim>\<open>std::out_of_range\<close> of \<^verbatim>\<open>vector::at\<close>, a failed
  \<^verbatim>\<open>CHECK\<close>, an access outside a buffer, or an abort inside the Caffe engine.
  A returned \<^verbatim>\<open>Status\<close> is the first component of the result; the session after the
  call is returned with it, also when the status is an error, because the C++ object
  keeps whatever was written before the early return.

  Not modelled: the choice of the device (\<^verbatim>\<open>TryAssignGPU\<close>, a mode of the whole process)
  and the log lines. The session options of the constructor are not read by the code.
\<close>

subsection \<open>Data\<close>

text \<open>
  Values of C++ type \<^verbatim>\<open>unsigned int\<close> are naturals below \<open>2 ^ 32\<close>, values of type
  \<^verbatim>\<open>int\<close> are integers, and the dimensions of a TensorFlow tensor (\<^verbatim>\<open>int64\<close>, never
  negative in a \<^verbatim>\<open>TensorShape\<close>) are naturals. The conversions between them that can
  lose information are written out.
\<close>

definition uint_of_int64 :: "nat \<Rightarrow> nat" where
  \<comment> \<open>\<^verbatim>\<open>unsigned int batch_size = in.dim_size(0)\<close>: the low 32 bits\<close>
  "uint_of_int64 d = d mod 2 ^ 32"

definition int_of_uint :: "nat \<Rightarrow> int" where
  \<comment> \<open>\<^verbatim>\<open>new_shape[0] = batch_size\<close>: an \<^verbatim>\<open>unsigned int\<close> stored in an \<^verbatim>\<open>int\<close>\<close>
  "int_of_uint u = (if u mod 2 ^ 32 < 2 ^ 31 then int (u mod 2 ^ 32)
                    else int (u mod 2 ^ 32) - 2 ^ 32)"

definition ulong_mult :: "nat \<Rightarrow> nat \<Rightarrow> nat" where
  \<comment> \<open>\<^verbatim>\<open>batch_size * (unsigned long)blob.channels()\<close>\<close>
  "ulong_mult a b = (a * b) mod 2 ^ 64"

type_synonym float = real

text \<open>A \<^verbatim>\<open>caffe::Blob<float>\<close>: its shape and the storage behind \<^verbatim>\<open>cpu_data()\<close>.\<close>

record blob =
  shape :: "int list"
  data :: "float list"

text \<open>
  A \<^verbatim>\<open>caffe::Net<float>\<close>. \<open>layer_params\<close> are the trained parameters of the layers;
  \<open>forward_passes\<close> counts the calls of \<^verbatim>\<open>Forward\<close>, so that a theorem can say that no
  forward pass was executed.
\<close>

record net =
  blob_names :: "string list"
  blobs :: "blob list"
  input_blob_indices :: "nat list"
  output_blob_indices :: "nat list"
  layer_params :: "float list list"
  forward_passes :: nat

text \<open>
  A \<^verbatim>\<open>tensorflow::Tensor\<close> of type float: its shape and its elements in row-major order
  (what \<^verbatim>\<open>flat<float>()\<close> views; the library keeps their number equal to the product of
  the dimensions).
\<close>

record tensor =
  dims :: "nat list"
  vals :: "float list"

text \<open>The messages of \<^verbatim>\<open>errors::InvalidArgument\<close>, each with the values it prints.\<close>

datatype invalid_argument =
    TargetNodesNotSupported
  | ExpectedInputs nat nat
  | BatchSizeUndetermined
  | InvalidBatchSize nat
  | InputDoesNotExist string
  | IncorrectBatchSize string
  | OutputDoesNotExist string
  | BatchSizeTooSmall
  | LoadFailed string

datatype status = OK | InvalidArgument invalid_argument

text \<open>
  The members of \<^verbatim>\<open>CaffeServingSession\<close> (\<^verbatim>\<open>net_\<close>, \<^verbatim>\<open>input_blob_map_\<close>,
  \<^verbatim>\<open>output_blob_map_\<close>, \<^verbatim>\<open>batch_size_\<close>; a name cannot end in an underscore here).
  The two maps are association lists with distinct keys, in insertion order.
\<close>

record session =
  m_net :: net
  m_input_blob_map :: "(string \<times> nat) list"
  m_output_blob_map :: "(string \<times> nat) list"
  m_batch_size :: nat

subsection \<open>The engine\<close>

text \<open>
  The Caffe library is not part of the repository. What the session calls in it is a
  parameter of the model: a record of functions, one for each call. \<open>'p\<close> is
  \<^verbatim>\<open>caffe::NetParameter\<close>. A function returns \<open>None\<close> where the library aborts.
  \<open>blob_realloc\<close> is the storage of a blob after \<^verbatim>\<open>Blob::Reshape\<close>, \<open>net_Reshape\<close> and
  \<open>net_Forward\<close> are what \<^verbatim>\<open>Net::Reshape()\<close> and \<^verbatim>\<open>Net::Forward()\<close> make of the
  blobs.
\<close>

record 'p engine =
  new_Net :: "'p \<Rightarrow> net option"
  blob_realloc :: "int list \<Rightarrow> float list \<Rightarrow> float list option"
  net_Reshape :: "blob list \<Rightarrow> blob list option"
  net_Forward :: "float list list \<Rightarrow> blob list \<Rightarrow> blob list option"
  net_CopyTrainedLayersFrom :: "'p \<Rightarrow> float list list \<Rightarrow> float list list option"
  ReadProtoFromBinaryFile :: "string \<Rightarrow> 'p option"

text \<open>
  Modelled from the spec: \<^verbatim>\<open>Blob::Reshape\<close> belongs to the engine. The spec says that the
  buffer takes the new leading dimension and is resized in place, and that an engine-side
  failure is fatal. So the blob gets the requested shape, and its storage is what the
  engine makes of it.
\<close>

definition Blob_Reshape :: "'p engine \<Rightarrow> int list \<Rightarrow> blob \<Rightarrow> blob option" where
  "Blob_Reshape E new_shape b =
     map_option (\<lambda>d. \<lparr>shape = new_shape, data = d\<rparr>) (blob_realloc E new_shape (data b))"

text \<open>
  \<^verbatim>\<open>Blob::channels()\<close> is an accessor of the engine's blob, not part of the repository:
  the size of the second axis of the shape, and 1 for a blob with fewer than two axes. It
  reads the shape only, whatever the axes after the second are.
\<close>

definition Blob_channels :: "blob \<Rightarrow> int" where
  "Blob_channels b = (if length (shape b) > 1 then shape b ! 1 else 1)"

definition Net_Reshape :: "'p engine \<Rightarrow> net \<Rightarrow> net option" where
  "Net_Reshape E n = map_option (\<lambda>bs. n\<lparr>blobs := bs\<rparr>) (net_Reshape E (blobs n))"

definition Net_Forward :: "'p engine \<Rightarrow> net \<Rightarrow> net option" where
  "Net_Forward E n =
     map_option (\<lambda>bs. n\<lparr>blobs := bs, forward_passes := Suc (forward_passes n)\<rparr>)
       (net_Forward E (layer_params n) (blobs n))"

definition Net_CopyTrainedLayersFrom :: "'p engine \<Rightarrow> 'p \<Rightarrow> net \<Rightarrow> net option" where
  "Net_CopyTrainedLayersFrom E param n =
     map_option (\<lambda>ps. n\<lparr>layer_params := ps\<rparr>) (net_CopyTrainedLayersFrom E param (layer_params n))"

subsection \<open>Helpers of the standard library\<close>

definition vector_at :: "'a list \<Rightarrow> nat \<Rightarrow> 'a option" where
  \<comment> \<open>\<^verbatim>\<open>vector::at\<close> throws out of range; \<^verbatim>\<open>operator[]\<close> out of range is undefined\<close>
  "vector_at xs i = (if i < length xs then Some (xs ! i) else None)"

definition emplace :: "'k \<Rightarrow> 'v \<Rightarrow> ('k \<times> 'v) list \<Rightarrow> ('k \<times> 'v) list" where
  \<comment> \<open>\<^verbatim>\<open>unordered_map::emplace\<close> keeps the entry of a key that is already there\<close>
  "emplace k v m = (case map_of m k of None \<Rightarrow> m @ [(k, v)] | Some _ \<Rightarrow> m)"

definition copy_n :: "'a list \<Rightarrow> 'a list \<Rightarrow> 'a list option" where
  \<comment> \<open>\<^verbatim>\<open>std::copy_n(src, size, dst)\<close> over the first elements of the destination\<close>
  "copy_n src dst = (if length src \<le> length dst then Some (src @ drop (length src) dst) else None)"

definition array_slice :: "'a list \<Rightarrow> nat \<Rightarrow> 'a list option" where
  \<comment> \<open>\<^verbatim>\<open>gtl::ArraySlice(ptr, n)\<close>, read in full by \<^verbatim>\<open>AsTensor\<close>\<close>
  "array_slice xs n = (if n \<le> length xs then Some (take n xs) else None)"

definition AsTensor :: "float list \<Rightarrow> nat list \<Rightarrow> tensor option" where
  \<comment> \<open>\<^verbatim>\<open>CHECK(ret.CopyFrom(AsTensor(vals), shape))\<close>: the element counts must agree\<close>
  "AsTensor vs sh = (if prod_list sh = length vs then Some \<lparr>dims = sh, vals = vs\<rparr> else None)"

definition dim_size :: "tensor \<Rightarrow> nat \<Rightarrow> nat option" where
  "dim_size t d = vector_at (dims t) d"

subsection \<open>BatchSizeOf and the constructor\<close>

fun BatchSizeOf_loop :: "blob list \<Rightarrow> nat list \<Rightarrow> nat \<Rightarrow> nat option" where
  "BatchSizeOf_loop bs [] x = Some x"
| "BatchSizeOf_loop bs (idx # idxs) x =
     (case vector_at bs idx of
        None \<Rightarrow> None
      | Some b \<Rightarrow>
          BatchSizeOf_loop bs idxs
            (if length (shape b) > 1 \<and> shape b ! 0 > 0 then max x (nat (shape b ! 0)) else x))"

definition BatchSizeOf :: "net \<Rightarrow> nat option" where
  "BatchSizeOf n = BatchSizeOf_loop (blobs n) (input_blob_indices n) 1"

fun emplace_all :: "string list \<Rightarrow> nat list \<Rightarrow> (string \<times> nat) list \<Rightarrow> (string \<times> nat) list option" where
  "emplace_all names [] m = Some m"
| "emplace_all names (idx # idxs) m =
     (case vector_at names idx of
        None \<Rightarrow> None
      | Some nm \<Rightarrow> emplace_all names idxs (emplace nm idx m))"

definition CaffeServingSession :: "'p engine \<Rightarrow> 'p \<Rightarrow> session option" where
  "CaffeServingSession E graph =
     do {
       n \<leftarrow> new_Net E graph;
       im \<leftarrow> emplace_all (blob_names n) (input_blob_indices n) [];
       om \<leftarrow> emplace_all (blob_names n) (output_blob_indices n) [];
       b \<leftarrow> BatchSizeOf n;
       Some \<lparr>m_net = n, m_input_blob_map = im, m_output_blob_map = om, m_batch_size = b\<rparr>
     }"

subsection \<open>Reshape\<close>

fun Reshape_loop :: "'p engine \<Rightarrow> nat \<Rightarrow> nat list \<Rightarrow> blob list \<Rightarrow> blob list option" where
  "Reshape_loop E batch_size [] bs = Some bs"
| "Reshape_loop E batch_size (idx # idxs) bs =
     (case vector_at bs idx of
        None \<Rightarrow> None
      | Some b \<Rightarrow>
          (let new_shape = shape b in
           if length new_shape > 1 \<and> new_shape ! 0 > 0
           then (case Blob_Reshape E (new_shape[0 := int_of_uint batch_size]) b of
                   None \<Rightarrow> None
                 | Some b' \<Rightarrow> Reshape_loop E batch_size idxs (bs[idx := b']))
           else Reshape_loop E batch_size idxs bs))"

definition Reshape :: "'p engine \<Rightarrow> nat \<Rightarrow> session \<Rightarrow> (status \<times> session) option" where
  "Reshape E batch_size s =
     (if batch_size \<le> 0 then Some (InvalidArgument BatchSizeTooSmall, s)
      else if m_batch_size s = batch_size then Some (OK, s)
      else
        do {
          bs \<leftarrow> Reshape_loop E batch_size (input_blob_indices (m_net s)) (blobs (m_net s));
          n \<leftarrow> Net_Reshape E ((m_net s)\<lparr>blobs := bs\<rparr>);
          Some (OK, s\<lparr>m_net := n, m_batch_size := batch_size\<rparr>)
        })"

subsection \<open>Run\<close>

text \<open>
  \<^verbatim>\<open>net_blobs\<close> is a copy of the net's vector of shared pointers: it names the blobs of
  the net themselves, before and after the forward pass. The two loops of \<^verbatim>\<open>Run\<close> are
  \<open>copy_inputs\<close> and \<open>copy_outputs\<close>; the latter starts from the cleared output list.
\<close>

fun copy_inputs ::
  "(string \<times> nat) list \<Rightarrow> nat \<Rightarrow> (string \<times> tensor) list \<Rightarrow> blob list \<Rightarrow> (status \<times> blob list) option"
where
  "copy_inputs m batch_size [] bs = Some (OK, bs)"
| "copy_inputs m batch_size (inp # ins) bs =
     (case map_of m (fst inp) of
        None \<Rightarrow> Some (InvalidArgument (InputDoesNotExist (fst inp)), bs)
      | Some idx \<Rightarrow>
          (case dim_size (snd inp) 0 of
             None \<Rightarrow> None
           | Some d \<Rightarrow>
               if d \<noteq> batch_size then Some (InvalidArgument (IncorrectBatchSize (fst inp)), bs)
               else
                 (case vector_at bs idx of
                    None \<Rightarrow> None
                  | Some b \<Rightarrow>
                      (case copy_n (vals (snd inp)) (data b) of
                         None \<Rightarrow> None
                       | Some d' \<Rightarrow> copy_inputs m batch_size ins (bs[idx := b\<lparr>data := d'\<rparr>])))))"

fun copy_outputs ::
  "(string \<times> nat) list \<Rightarrow> nat \<Rightarrow> string list \<Rightarrow> blob list \<Rightarrow> tensor list
     \<Rightarrow> (status \<times> tensor list) option"
where
  "copy_outputs m batch_size [] bs outputs = Some (OK, outputs)"
| "copy_outputs m batch_size (out # outs) bs outputs =
     (case map_of m out of
        None \<Rightarrow> Some (InvalidArgument (OutputDoesNotExist out), outputs)
      | Some idx \<Rightarrow>
          (case vector_at bs idx of
             None \<Rightarrow> None
           | Some b \<Rightarrow>
               \<comment> \<open>\<^verbatim>\<open>TensorShape shape{ batch_size, blob.channels() }\<close> refuses a negative size\<close>
               if Blob_channels b < 0 then None
               else
                 (case array_slice (data b) (ulong_mult batch_size (nat (Blob_channels b))) of
                    None \<Rightarrow> None
                  | Some vs \<Rightarrow>
                      (case AsTensor vs [batch_size, nat (Blob_channels b)] of
                         None \<Rightarrow> None
                       | Some t \<Rightarrow> copy_outputs m batch_size outs bs (outputs @ [t])))))"

definition grow :: "'p engine \<Rightarrow> nat \<Rightarrow> session \<Rightarrow> (status \<times> session) option" where
  \<comment> \<open>\<^verbatim>\<open>if (batch_size_ < batch_size) { TF_RETURN_IF_ERROR(Reshape(batch_size)); }\<close>\<close>
  "grow E batch_size s =
     (if m_batch_size s < batch_size then Reshape E batch_size s else Some (OK, s))"

definition Run ::
  "'p engine \<Rightarrow> (string \<times> tensor) list \<Rightarrow> string list \<Rightarrow> string list \<Rightarrow> tensor list \<Rightarrow> session
     \<Rightarrow> (status \<times> tensor list \<times> session) option"
where
  "Run E inputs output_tensor_names target_node_names outputs s =
     (if length target_node_names > 0
      then Some (InvalidArgument TargetNodesNotSupported, outputs, s)
      else if length inputs = 0 \<or> length inputs < length (m_input_blob_map s)
      then Some (InvalidArgument (ExpectedInputs (length (m_input_blob_map s)) (length inputs)),
                 outputs, s)
      else if length (dims (snd (inputs ! 0))) < 2
      then Some (InvalidArgument BatchSizeUndetermined, outputs, s)
      else
        (let batch_size = uint_of_int64 (dims (snd (inputs ! 0)) ! 0) in
         if batch_size < 1 then Some (InvalidArgument (InvalidBatchSize batch_size), outputs, s)
         else
           (case grow E batch_size s of
              None \<Rightarrow> None
            | Some (st1, s1) \<Rightarrow>
                if st1 \<noteq> OK then Some (st1, outputs, s1)
                else
                  (case copy_inputs (m_input_blob_map s1) batch_size inputs (blobs (m_net s1)) of
                     None \<Rightarrow> None
                   | Some (st2, bs) \<Rightarrow>
                       if st2 \<noteq> OK
                       then Some (st2, outputs, s1\<lparr>m_net := (m_net s1)\<lparr>blobs := bs\<rparr>\<rparr>)
                       else
                         (case Net_Forward E ((m_net s1)\<lparr>blobs := bs\<rparr>) of
                            None \<Rightarrow> None
                          | Some n \<Rightarrow>
                              (case copy_outputs (m_output_blob_map s1) batch_size
                                      output_tensor_names (blobs n) [] of
                                 None \<Rightarrow> None
                               | Some (st3, outs) \<Rightarrow> Some (st3, outs, s1\<lparr>m_net := n\<rparr>)))))))"

subsection \<open>CopyTrainedLayersFromBinaryProto\<close>

definition CopyTrainedLayersFromBinaryProto ::
  "'p engine \<Rightarrow> string \<Rightarrow> session \<Rightarrow> (status \<times> session) option"
where
  "CopyTrainedLayersFromBinaryProto E trained_filename s =
     (case ReadProtoFromBinaryFile E trained_filename of
        None \<Rightarrow> Some (InvalidArgument (LoadFailed trained_filename), s)
      | Some param \<Rightarrow>
          (case Net_CopyTrainedLayersFrom E param (m_net s) of
             None \<Rightarrow> None
           | Some n \<Rightarrow> Some (OK, s\<lparr>m_net := n\<rparr>)))"

subsection \<open>Sequences of calls\<close>

record request =
  req_inputs :: "(string \<times> tensor) list"
  req_output_tensor_names :: "string list"
  req_target_node_names :: "string list"

definition Run_request :: "'p engine \<Rightarrow> request \<Rightarrow> session \<Rightarrow> (status \<times> tensor list \<times> session) option" where
  "Run_request E r s =
     Run E (req_inputs r) (req_output_tensor_names r) (req_target_node_names r) [] s"

text \<open>A client calls \<^verbatim>\<open>Run\<close> again and again on the same session, whatever the status.\<close>

fun Run_all :: "'p engine \<Rightarrow> request list \<Rightarrow> session \<Rightarrow> session option" where
  "Run_all E [] s = Some s"
| "Run_all E (r # rs) s =
     (case Run_request E r s of
        None \<Rightarrow> None
      | Some (st, outs, s') \<Rightarrow> Run_all E rs s')"

datatype api_call = CallRun request | CallReshape nat | CallCopyTrainedLayers string

fun do_call :: "'p engine \<Rightarrow> api_call \<Rightarrow> session \<Rightarrow> session option" where
  "do_call E (CallRun r) s = map_option (\<lambda>(st, outs, s'). s') (Run_request E r s)"
| "do_call E (CallReshape batch_size) s = map_option snd (Reshape E batch_size s)"
| "do_call E (CallCopyTrainedLayers trained_filename) s =
     map_option snd (CopyTrainedLayersFromBinaryProto E trained_filename s)"

fun do_calls :: "'p engine \<Rightarrow> api_call list \<Rightarrow> session \<Rightarrow> session option" where
  "do_calls E [] s = Some s"
| "do_calls E (c # cs) s = (case do_call E c s of None \<Rightarrow> None | Some s' \<Rightarrow> do_calls E cs s')"

subsection \<open>The words of the specification\<close>

text \<open>
  The batch-size candidates of the declared input buffers: the leading dimension of every
  input buffer whose shape has more than one dimension and a positive leading dimension.
\<close>

definition batch_candidates :: "blob list \<Rightarrow> nat list \<Rightarrow> nat list" where
  "batch_candidates bs idxs =
     map (\<lambda>idx. nat (shape (bs ! idx) ! 0))
       (filter (\<lambda>idx. length (shape (bs ! idx)) > 1 \<and> shape (bs ! idx) ! 0 > 0) idxs)"

text \<open>The estimate: the maximum candidate, or 1 if no buffer yields a candidate.\<close>

definition estimate_spec :: "net \<Rightarrow> nat" where
  "estimate_spec n =
     (let cs = batch_candidates (blobs n) (input_blob_indices n)
      in if cs = [] then 1 else Max (set cs))"

text \<open>The batch size that \<^verbatim>\<open>Run\<close> determines from the first input of a request.\<close>

definition determined_batch :: "(string \<times> tensor) list \<Rightarrow> nat" where
  "determined_batch inputs = uint_of_int64 (dims (snd (inputs ! 0)) ! 0)"

text \<open>
  A call passes the first three checks of \<^verbatim>\<open>Run\<close> (target nodes, input count, batch
  size of the first input) and reaches the reshape step.
\<close>

definition passes_checks :: "session \<Rightarrow> (string \<times> tensor) list \<Rightarrow> string list \<Rightarrow> bool" where
  "passes_checks s inputs target_node_names =
     (target_node_names = []
      \<and> inputs \<noteq> []
      \<and> length (m_input_blob_map s) \<le> length inputs
      \<and> 2 \<le> length (dims (snd (inputs ! 0)))
      \<and> 1 \<le> determined_batch inputs)"

definition reaches_reshape :: "session \<Rightarrow> request \<Rightarrow> bool" where
  "reaches_reshape s r = passes_checks s (req_inputs r) (req_target_node_names r)"

text \<open>
  An input of a request fails the validation of the copy loop: its name is not in the
  input binding table, or its leading dimension is not the determined batch size.
\<close>

definition input_fault :: "(string \<times> nat) list \<Rightarrow> nat \<Rightarrow> string \<times> tensor \<Rightarrow> bool" where
  "input_fault m batch_size inp =
     (map_of m (fst inp) = None
      \<or> (dims (snd inp) \<noteq> [] \<and> dims (snd inp) ! 0 \<noteq> batch_size))"

text \<open>
  The copy of an input stays inside the model: the tensor has a leading dimension, the
  bound index is an index of the buffer list, and the elements of the tensor fit into the
  storage of the buffer. (An input whose name is not bound is not copied.)
\<close>

definition copy_defined :: "(string \<times> nat) list \<Rightarrow> blob list \<Rightarrow> string \<times> tensor \<Rightarrow> bool" where
  "copy_defined m bs inp =
     (case map_of m (fst inp) of
        None \<Rightarrow> True
      | Some idx \<Rightarrow>
          dims (snd inp) \<noteq> []
          \<and> idx < length bs
          \<and> length (vals (snd inp)) \<le> length (data (bs ! idx)))"


text \<open>A buffer qualifies for a reshape: rank above one and a positive leading dimension.\<close>

definition qualifies :: "blob \<Rightarrow> bool" where
  "qualifies b = (length (shape b) > 1 \<and> shape b ! 0 > 0)"

subsection \<open>A small engine and network for concrete runs\<close>

text \<open>
  Two input buffers, \<open>data\<close> of shape \<open>(1, 2)\<close> and \<open>label\<close> of shape \<open>(1, 1)\<close>, and one
  output buffer \<open>prob\<close> of shape \<open>(1, 2)\<close>. The forward pass copies \<open>data\<close> to \<open>prob\<close>.
\<close>

definition demo_net :: net where
  "demo_net =
     \<lparr>blob_names = [''data'', ''label'', ''prob''],
      blobs = [\<lparr>shape = [1, 2], data = [0, 0]\<rparr>,
               \<lparr>shape = [1, 1], data = [0]\<rparr>,
               \<lparr>shape = [1, 2], data = [0, 0]\<rparr>],
      input_blob_indices = [0, 1],
      output_blob_indices = [2],
      layer_params = [],
      forward_passes = 0\<rparr>"

definition demo_realloc :: "int list \<Rightarrow> float list \<Rightarrow> float list" where
  "demo_realloc sh old =
     (if nat (prod_list sh) \<le> length old then old else replicate (nat (prod_list sh)) 0)"

definition demo_propagate :: "blob list \<Rightarrow> blob list" where
  "demo_propagate bs =
     (case bs of
        [] \<Rightarrow> []
      | b0 # _ \<Rightarrow>
          map (\<lambda>b. \<lparr>shape = (shape b)[0 := shape b0 ! 0],
                    data = demo_realloc ((shape b)[0 := shape b0 ! 0]) (data b)\<rparr>) bs)"

definition demo_forward :: "blob list \<Rightarrow> blob list" where
  "demo_forward bs = bs[2 := (bs ! 2)\<lparr>data := data (bs ! 0)\<rparr>]"

definition demo_engine :: "unit engine" where
  "demo_engine =
     \<lparr>new_Net = (\<lambda>_. Some demo_net),
      blob_realloc = (\<lambda>sh old. Some (demo_realloc sh old)),
      net_Reshape = (\<lambda>bs. Some (demo_propagate bs)),
      net_Forward = (\<lambda>ps bs. Some (demo_forward bs)),
      net_CopyTrainedLayersFrom = (\<lambda>p ps. Some ps),
      ReadProtoFromBinaryFile = (\<lambda>f. if f = ''weights.caffemodel'' then Some () else None)\<rparr>"

definition demo_session :: session where
  "demo_session =
     \<lparr>m_net = demo_net,
      m_input_blob_map = [(''data'', 0), (''label'', 1)],
      m_output_blob_map = [(''prob'', 2)],
      m_batch_size = 1\<rparr>"

text \<open>The demo engine, but with a blob that aborts on a negative dimension.\<close>

definition demo_strict_engine :: "unit engine" where
  "demo_strict_engine =
     demo_engine
       \<lparr>blob_realloc :=
          (\<lambda>sh old. if list_ex (\<lambda>d. d < 0) sh then None else Some (demo_realloc sh old))\<rparr>"



text \<open>
  Requests for the demo session: a batch of two examples; a batch of four examples whose
  second input has five; a request whose second input is not bound.
\<close>

definition demo_batch2 :: "(string \<times> tensor) list" where
  "demo_batch2 =
     [(''data'', \<lparr>dims = [2, 2], vals = [1, 2, 3, 4]\<rparr>),
      (''label'', \<lparr>dims = [2, 1], vals = [5, 6]\<rparr>)]"

definition demo_mismatch :: "(string \<times> tensor) list" where
  "demo_mismatch =
     [(''data'', \<lparr>dims = [4, 2], vals = [1, 2, 3, 4, 5, 6, 7, 8]\<rparr>),
      (''label'', \<lparr>dims = [5, 1], vals = [1, 2, 3, 4, 5]\<rparr>)]"

definition demo_unknown :: "(string \<times> tensor) list" where
  "demo_unknown =
     [(''data'', \<lparr>dims = [1, 2], vals = [7, 8]\<rparr>),
      (''image'', \<lparr>dims = [1, 1], vals = [9]\<rparr>)]"

section \<open>Properties\<close>

lemmas demo_defs =
  demo_engine_def demo_session_def demo_net_def demo_realloc_def demo_propagate_def
  demo_forward_def

lemmas run_defs =
  Run_def grow_def Reshape_def Net_Reshape_def Net_Forward_def Blob_Reshape_def vector_at_def
  copy_n_def array_slice_def AsTensor_def dim_size_def uint_of_int64_def int_of_uint_def
  ulong_mult_def Blob_channels_def

subsection \<open>The initial estimate\<close>

lemma BatchSizeOf_loop_fold:
  "BatchSizeOf_loop bs idxs x = Some y \<Longrightarrow> y = fold max (batch_candidates bs idxs) x"
proof (induction idxs arbitrary: x)
  case Nil
  then show ?case by (simp add: batch_candidates_def)
next
  case (Cons idx idxs)
  from Cons.prems have lt: "idx < length bs"
    by (simp add: vector_at_def split: if_splits)
  show ?case
  proof (cases "length (shape (bs ! idx)) > 1 \<and> shape (bs ! idx) ! 0 > 0")
    case True
    with Cons.prems lt
    have "BatchSizeOf_loop bs idxs (max x (nat (shape (bs ! idx) ! 0))) = Some y"
      by (simp add: vector_at_def)
    from Cons.IH [OF this] True show ?thesis
      by (simp add: batch_candidates_def max.commute)
  next
    case False
    with Cons.prems lt have "BatchSizeOf_loop bs idxs x = Some y"
      by (auto simp: vector_at_def)
    from Cons.IH [OF this] False show ?thesis
      by (auto simp: batch_candidates_def)
  qed
qed

lemma BatchSizeOf_loop_total:
  "\<forall>idx\<in>set idxs. idx < length bs \<Longrightarrow> \<exists>y. BatchSizeOf_loop bs idxs x = Some y"
  by (induction idxs arbitrary: x) (auto simp: vector_at_def)

lemma batch_candidates_pos: "c \<in> set (batch_candidates bs idxs) \<Longrightarrow> 1 \<le> c"
  by (auto simp: batch_candidates_def)

lemma fold_max_candidates:
  "fold max cs (1::nat) = (if cs = [] then 1 else Max (set cs))" if "\<forall>c\<in>set cs. 1 \<le> c"
proof (cases cs)
  case Nil
  then show ?thesis by simp
next
  case (Cons c cs')
  have "Max (set (1 # cs)) = fold max cs 1"
    by (rule Max.set_eq_fold)
  moreover have "1 \<le> Max (set cs)"
    using Cons that by (simp add: Max_ge_iff)
  then have "Max (set (1 # cs)) = Max (set cs)"
    using Cons by (simp add: max_def)
  ultimately show ?thesis using Cons by simp
qed

lemma BatchSizeOf_estimate: "BatchSizeOf n = Some x \<Longrightarrow> x = estimate_spec n"
proof -
  assume "BatchSizeOf n = Some x"
  then have "x = fold max (batch_candidates (blobs n) (input_blob_indices n)) 1"
    unfolding BatchSizeOf_def by (rule BatchSizeOf_loop_fold)
  also have "\<dots> = estimate_spec n"
    unfolding estimate_spec_def Let_def
    by (rule fold_max_candidates) (auto dest: batch_candidates_pos)
  finally show ?thesis .
qed

text \<open>
  C8. The initial estimate of the batch capacity is the maximum, over the declared input
  buffers whose shape has more than one dimension and a positive leading dimension, of
  that leading dimension, and 1 when there is no such buffer (\<open>estimate_spec\<close>).
  \<^verbatim>\<open>BatchSizeOf\<close> returns nothing else; it returns whenever the input indices of the net
  are in range; and the constructor stores its result in \<^verbatim>\<open>batch_size_\<close>.
\<close>

theorem C8_initial_estimate:
  "(BatchSizeOf n = Some x \<longrightarrow> x = estimate_spec n)
   \<and> ((\<forall>idx\<in>set (input_blob_indices n). idx < length (blobs n))
        \<longrightarrow> BatchSizeOf n = Some (estimate_spec n))
   \<and> (CaffeServingSession E graph = Some s \<longrightarrow> m_batch_size s = estimate_spec (m_net s))"
proof (intro conjI impI)
  assume "BatchSizeOf n = Some x"
  then show "x = estimate_spec n" by (rule BatchSizeOf_estimate)
next
  assume "\<forall>idx\<in>set (input_blob_indices n). idx < length (blobs n)"
  then obtain y where y: "BatchSizeOf n = Some y"
    unfolding BatchSizeOf_def using BatchSizeOf_loop_total by blast
  then show "BatchSizeOf n = Some (estimate_spec n)"
    using BatchSizeOf_estimate by blast
next
  assume "CaffeServingSession E graph = Some s"
  then have "BatchSizeOf (m_net s) = Some (m_batch_size s)"
    by (auto simp: CaffeServingSession_def split: Option.bind_splits)
  then show "m_batch_size s = estimate_spec (m_net s)" by (rule BatchSizeOf_estimate)
qed

text \<open>
  Input buffers of shapes \<open>(4, 2)\<close>, \<open>(7, 1)\<close>, \<open>(9)\<close> and \<open>(0, 5)\<close>: the candidates are 4
  and 7, the estimate is 7. The demo network, with leading dimensions 1, is constructed
  with capacity 1.
\<close>

theorem C8_initial_estimate_witness:
  "BatchSizeOf (demo_net\<lparr>blobs := [\<lparr>shape = [4, 2], data = []\<rparr>, \<lparr>shape = [7, 1], data = []\<rparr>,
                                   \<lparr>shape = [9], data = []\<rparr>, \<lparr>shape = [0, 5], data = []\<rparr>],
                         input_blob_indices := [0, 1, 2, 3]\<rparr>) = Some 7
   \<and> estimate_spec (demo_net\<lparr>blobs := [\<lparr>shape = [4, 2], data = []\<rparr>, \<lparr>shape = [7, 1], data = []\<rparr>,
                                   \<lparr>shape = [9], data = []\<rparr>, \<lparr>shape = [0, 5], data = []\<rparr>],
                         input_blob_indices := [0, 1, 2, 3]\<rparr>) = 7
   \<and> CaffeServingSession demo_engine () = Some demo_session
   \<and> m_batch_size demo_session = estimate_spec (m_net demo_session)
   \<and> estimate_spec (m_net demo_session) = 1"
  using C8_initial_estimate
    [of "demo_net\<lparr>blobs := [\<lparr>shape = [4, 2], data = []\<rparr>, \<lparr>shape = [7, 1], data = []\<rparr>,
                             \<lparr>shape = [9], data = []\<rparr>, \<lparr>shape = [0, 5], data = []\<rparr>],
                   input_blob_indices := [0, 1, 2, 3]\<rparr>" 7 demo_engine "()" demo_session]
  by (simp add: demo_defs BatchSizeOf_def CaffeServingSession_def vector_at_def emplace_def)

subsection \<open>Reshape\<close>

lemma Reshape_cases:
  assumes "Reshape E b s = Some (st, s')"
  shows "(b = 0 \<and> st = InvalidArgument BatchSizeTooSmall \<and> s' = s)
       \<or> (1 \<le> b \<and> st = OK \<and> m_batch_size s = b \<and> s' = s)
       \<or> (1 \<le> b \<and> st = OK \<and> m_batch_size s \<noteq> b
           \<and> (\<exists>bs bs'. Reshape_loop E b (input_blob_indices (m_net s)) (blobs (m_net s)) = Some bs
                \<and> net_Reshape E bs = Some bs'
                \<and> s' = s\<lparr>m_net := (m_net s)\<lparr>blobs := bs'\<rparr>, m_batch_size := b\<rparr>))"
  using assms
  by (auto simp: Reshape_def Net_Reshape_def split: if_splits Option.bind_splits)

lemma Reshape_frame:
  assumes "Reshape E b s = Some (st, s')"
  shows "m_input_blob_map s' = m_input_blob_map s"
    and "m_output_blob_map s' = m_output_blob_map s"
    and "forward_passes (m_net s') = forward_passes (m_net s)"
    and "layer_params (m_net s') = layer_params (m_net s)"
    and "1 \<le> b \<Longrightarrow> st = OK \<and> m_batch_size s' = b"
  using Reshape_cases [OF assms] by auto

lemma Reshape_loop_shapes:
  "Reshape_loop E b idxs bs = Some bs'
   \<Longrightarrow> length bs' = length bs
       \<and> (\<forall>i<length bs.
             if i \<in> set idxs \<and> qualifies (bs ! i)
             then shape (bs' ! i) = (shape (bs ! i))[0 := int_of_uint b]
             else bs' ! i = bs ! i)"
proof (induction idxs arbitrary: bs)
  case Nil
  then show ?case by simp
next
  case (Cons idx idxs)
  from Cons.prems have lt: "idx < length bs"
    by (auto simp: vector_at_def split: if_splits)
  show ?case
  proof (cases "qualifies (bs ! idx)")
    case True
    with Cons.prems lt obtain b' where
      b': "Blob_Reshape E ((shape (bs ! idx))[0 := int_of_uint b]) (bs ! idx) = Some b'"
      and rest: "Reshape_loop E b idxs (bs[idx := b']) = Some bs'"
      by (auto simp: vector_at_def qualifies_def Let_def split: option.splits)
    from b' have sh: "shape b' = (shape (bs ! idx))[0 := int_of_uint b]"
      by (auto simp: Blob_Reshape_def)
    note IH = Cons.IH [OF rest]
    from IH have len: "length bs' = length bs" by simp
    have "if i \<in> set (idx # idxs) \<and> qualifies (bs ! i)
          then shape (bs' ! i) = (shape (bs ! i))[0 := int_of_uint b]
          else bs' ! i = bs ! i" if i: "i < length bs" for i
    proof (cases "i = idx")
      case eq: True
      from IH lt have "if idx \<in> set idxs \<and> qualifies b'
          then shape (bs' ! idx) = (shape b')[0 := int_of_uint b]
          else bs' ! idx = b'"
        by (auto split: if_splits)
      then have "shape (bs' ! idx) = (shape (bs ! idx))[0 := int_of_uint b]"
        using sh by (auto split: if_splits)
      with eq True show ?thesis by simp
    next
      case False
      with IH i show ?thesis by (auto split: if_splits)
    qed
    with len show ?thesis by blast
  next
    case False
    with Cons.prems lt have rest: "Reshape_loop E b idxs bs = Some bs'"
      by (auto simp: vector_at_def qualifies_def Let_def)
    note IH = Cons.IH [OF rest]
    from IH have len: "length bs' = length bs" by simp
    have "if i \<in> set (idx # idxs) \<and> qualifies (bs ! i)
          then shape (bs' ! i) = (shape (bs ! i))[0 := int_of_uint b]
          else bs' ! i = bs ! i" if i: "i < length bs" for i
      using IH i False by (cases "i = idx") (auto split: if_splits)
    with len show ?thesis by blast
  qed
qed

lemma int_of_uint_small: "b < 2 ^ 31 \<Longrightarrow> int_of_uint b = int b"
proof -
  assume b: "b < 2 ^ 31"
  have "(2::nat) ^ 31 < 2 ^ 32" by simp
  with b have "b < 2 ^ 32" by (rule less_trans)
  then have "b mod 2 ^ 32 = b" by (rule mod_less)
  with b show ?thesis by (simp add: int_of_uint_def)
qed

lemma int_of_uint_large: "2 ^ 31 \<le> b \<Longrightarrow> b < 2 ^ 32 \<Longrightarrow> int_of_uint b = int b - 2 ^ 32"
proof -
  assume lo: "2 ^ 31 \<le> b" and hi: "b < 2 ^ 32"
  from hi have "b mod 2 ^ 32 = b" by (rule mod_less)
  with lo show ?thesis by (simp add: int_of_uint_def)
qed

lemma Reshape_returns:
  assumes "1 \<le> b" and "b \<noteq> m_batch_size s" and "Reshape E b s = Some (st, s')"
  shows "st = OK
     \<and> (\<exists>bs bs'. length bs = length (blobs (m_net s))
           \<and> (\<forall>i<length bs.
                 if i \<in> set (input_blob_indices (m_net s)) \<and> qualifies (blobs (m_net s) ! i)
                 then shape (bs ! i) = (shape (blobs (m_net s) ! i))[0 := int_of_uint b]
                 else bs ! i = blobs (m_net s) ! i)
           \<and> net_Reshape E bs = Some bs'
           \<and> s' = s\<lparr>m_net := (m_net s)\<lparr>blobs := bs'\<rparr>, m_batch_size := b\<rparr>)"
proof -
  from assms Reshape_cases [of E b s st s'] have ok: "st = OK" by auto
  from assms Reshape_cases [of E b s st s'] obtain bs bs' where
    loop: "Reshape_loop E b (input_blob_indices (m_net s)) (blobs (m_net s)) = Some bs"
    and prp: "net_Reshape E bs = Some bs'"
    and s': "s' = s\<lparr>m_net := (m_net s)\<lparr>blobs := bs'\<rparr>, m_batch_size := b\<rparr>"
    by auto
  from Reshape_loop_shapes [OF loop]
  have "length bs = length (blobs (m_net s))
      \<and> (\<forall>i<length bs.
            if i \<in> set (input_blob_indices (m_net s)) \<and> qualifies (blobs (m_net s) ! i)
            then shape (bs ! i) = (shape (blobs (m_net s) ! i))[0 := int_of_uint b]
            else bs ! i = blobs (m_net s) ! i)"
    by simp
  with prp s' have "\<exists>bs bs'. length bs = length (blobs (m_net s))
           \<and> (\<forall>i<length bs.
                 if i \<in> set (input_blob_indices (m_net s)) \<and> qualifies (blobs (m_net s) ! i)
                 then shape (bs ! i) = (shape (blobs (m_net s) ! i))[0 := int_of_uint b]
                 else bs ! i = blobs (m_net s) ! i)
           \<and> net_Reshape E bs = Some bs'
           \<and> s' = s\<lparr>m_net := (m_net s)\<lparr>blobs := bs'\<rparr>, m_batch_size := b\<rparr>"
    by blast
  with ok show ?thesis by (intro conjI)
qed

text \<open>
  C5. \<^verbatim>\<open>Reshape(requestedBatch)\<close> with \<open>requestedBatch < 1\<close> returns an InvalidArgument
  error and the session is unchanged. For a request of at least 1 and different from the
  current capacity, a returning call is successful: the buffers \<open>bs\<close> handed to the shape
  propagation of the graph have a new leading dimension in exactly the input buffers of
  rank above one with a positive leading dimension, every other buffer is the buffer
  before the call, the session after the call holds what the propagation makes of \<open>bs\<close>,
  and its capacity is \<open>requestedBatch\<close>. Up to \<open>2\<^sup>3\<^sup>1 - 1\<close> the new leading dimension is
  \<open>requestedBatch\<close>, as the claim says. From \<open>2\<^sup>3\<^sup>1\<close> on it is
  \<open>requestedBatch - 2\<^sup>3\<^sup>2\<close>, a negative number: line 229 stores the
  \<^verbatim>\<open>unsigned int\<close> in the \<^verbatim>\<open>int\<close> of the shape without a check, and there the code
  misses the claim.
\<close>

theorem C5_Reshape:
  "(1 \<le> b \<and> b < 2 ^ 31 \<and> b \<noteq> m_batch_size s \<and> Reshape E b s = Some (st, s')
      \<longrightarrow> st = OK
        \<and> (\<exists>bs bs'. length bs = length (blobs (m_net s))
              \<and> (\<forall>i<length bs.
                    if i \<in> set (input_blob_indices (m_net s)) \<and> qualifies (blobs (m_net s) ! i)
                    then shape (bs ! i) = (shape (blobs (m_net s) ! i))[0 := int b]
                    else bs ! i = blobs (m_net s) ! i)
              \<and> net_Reshape E bs = Some bs'
              \<and> s' = s\<lparr>m_net := (m_net s)\<lparr>blobs := bs'\<rparr>, m_batch_size := b\<rparr>))
   \<and> (2 ^ 31 \<le> b \<and> b < 2 ^ 32 \<and> b \<noteq> m_batch_size s \<and> Reshape E b s = Some (st, s')
      \<longrightarrow> st = OK
        \<and> (\<exists>bs bs'. length bs = length (blobs (m_net s))
              \<and> (\<forall>i<length bs.
                    if i \<in> set (input_blob_indices (m_net s)) \<and> qualifies (blobs (m_net s) ! i)
                    then shape (bs ! i) = (shape (blobs (m_net s) ! i))[0 := int b - 2 ^ 32]
                    else bs ! i = blobs (m_net s) ! i)
              \<and> net_Reshape E bs = Some bs'
              \<and> s' = s\<lparr>m_net := (m_net s)\<lparr>blobs := bs'\<rparr>, m_batch_size := b\<rparr>))
   \<and> (b < 1 \<longrightarrow> Reshape E b s = Some (InvalidArgument BatchSizeTooSmall, s))"
proof (intro conjI impI)
  assume "b < 1"
  then show "Reshape E b s = Some (InvalidArgument BatchSizeTooSmall, s)"
    by (simp add: Reshape_def)
next
  assume h: "1 \<le> b \<and> b < 2 ^ 31 \<and> b \<noteq> m_batch_size s \<and> Reshape E b s = Some (st, s')"
  then have conv: "int_of_uint b = int b" by (simp add: int_of_uint_small)
  from h have "1 \<le> b" "b \<noteq> m_batch_size s" "Reshape E b s = Some (st, s')" by simp_all
  from Reshape_returns [OF this] show "st = OK"
    and "\<exists>bs bs'. length bs = length (blobs (m_net s))
              \<and> (\<forall>i<length bs.
                    if i \<in> set (input_blob_indices (m_net s)) \<and> qualifies (blobs (m_net s) ! i)
                    then shape (bs ! i) = (shape (blobs (m_net s) ! i))[0 := int b]
                    else bs ! i = blobs (m_net s) ! i)
              \<and> net_Reshape E bs = Some bs'
              \<and> s' = s\<lparr>m_net := (m_net s)\<lparr>blobs := bs'\<rparr>, m_batch_size := b\<rparr>"
    unfolding conv by simp_all
next
  assume h: "2 ^ 31 \<le> b \<and> b < 2 ^ 32 \<and> b \<noteq> m_batch_size s \<and> Reshape E b s = Some (st, s')"
  then have conv: "int_of_uint b = int b - 2 ^ 32" by (simp add: int_of_uint_large)
  from h have "(2::nat) ^ 31 \<le> b" by simp
  then have "1 \<le> b" by simp
  moreover from h have "b \<noteq> m_batch_size s" "Reshape E b s = Some (st, s')" by simp_all
  ultimately have r: "st = OK
     \<and> (\<exists>bs bs'. length bs = length (blobs (m_net s))
           \<and> (\<forall>i<length bs.
                 if i \<in> set (input_blob_indices (m_net s)) \<and> qualifies (blobs (m_net s) ! i)
                 then shape (bs ! i) = (shape (blobs (m_net s) ! i))[0 := int_of_uint b]
                 else bs ! i = blobs (m_net s) ! i)
           \<and> net_Reshape E bs = Some bs'
           \<and> s' = s\<lparr>m_net := (m_net s)\<lparr>blobs := bs'\<rparr>, m_batch_size := b\<rparr>)"
    by (rule Reshape_returns)
  from r show "st = OK"
    and "\<exists>bs bs'. length bs = length (blobs (m_net s))
              \<and> (\<forall>i<length bs.
                    if i \<in> set (input_blob_indices (m_net s)) \<and> qualifies (blobs (m_net s) ! i)
                    then shape (bs ! i) = (shape (blobs (m_net s) ! i))[0 := int b - 2 ^ 32]
                    else bs ! i = blobs (m_net s) ! i)
              \<and> net_Reshape E bs = Some bs'
              \<and> s' = s\<lparr>m_net := (m_net s)\<lparr>blobs := bs'\<rparr>, m_batch_size := b\<rparr>"
    unfolding conv by simp_all
qed

text \<open>
  On the demo session: \<^verbatim>\<open>Reshape(4)\<close> gives the input buffers the leading dimension 4,
  \<^verbatim>\<open>Reshape(0)\<close> is refused, and \<^verbatim>\<open>Reshape(2147483648)\<close> gives them the leading
  dimension \<open>-2147483648\<close> and the capacity 2147483648. With the engine whose blobs abort
  on a negative dimension, \<^verbatim>\<open>Reshape(2147483648)\<close> does not return.
\<close>

theorem C5_Reshape_witness:
  "((1::nat) \<le> 4 \<and> (4::nat) < 2 ^ 31 \<and> 4 \<noteq> m_batch_size demo_session
    \<and> Reshape demo_engine 4 demo_session
        = Some (OK, demo_session
            \<lparr>m_net := demo_net\<lparr>blobs := [\<lparr>shape = [4, 2], data = replicate 8 0\<rparr>,
                                          \<lparr>shape = [4, 1], data = replicate 4 0\<rparr>,
                                          \<lparr>shape = [4, 2], data = replicate 8 0\<rparr>]\<rparr>,
              m_batch_size := 4\<rparr>))
   \<and> (\<exists>bs bs'. length bs = length (blobs (m_net demo_session))
          \<and> (\<forall>i<length bs.
                if i \<in> set (input_blob_indices (m_net demo_session))
                   \<and> qualifies (blobs (m_net demo_session) ! i)
                then shape (bs ! i) = (shape (blobs (m_net demo_session) ! i))[0 := int 4]
                else bs ! i = blobs (m_net demo_session) ! i)
          \<and> net_Reshape demo_engine bs = Some bs'
          \<and> demo_session
              \<lparr>m_net := demo_net\<lparr>blobs := [\<lparr>shape = [4, 2], data = replicate 8 0\<rparr>,
                                            \<lparr>shape = [4, 1], data = replicate 4 0\<rparr>,
                                            \<lparr>shape = [4, 2], data = replicate 8 0\<rparr>]\<rparr>,
                m_batch_size := 4\<rparr>
            = demo_session\<lparr>m_net := (m_net demo_session)\<lparr>blobs := bs'\<rparr>, m_batch_size := 4\<rparr>)
   \<and> ((2::nat) ^ 31 \<le> 2147483648 \<and> (2147483648::nat) < 2 ^ 32
      \<and> 2147483648 \<noteq> m_batch_size demo_session
      \<and> Reshape demo_engine 2147483648 demo_session
          = Some (OK, demo_session
              \<lparr>m_net := demo_net\<lparr>blobs := [\<lparr>shape = [- 2147483648, 2], data = [0, 0]\<rparr>,
                                            \<lparr>shape = [- 2147483648, 1], data = [0]\<rparr>,
                                            \<lparr>shape = [- 2147483648, 2], data = [0, 0]\<rparr>]\<rparr>,
                m_batch_size := 2147483648\<rparr>))
   \<and> (\<exists>bs bs'. length bs = length (blobs (m_net demo_session))
          \<and> (\<forall>i<length bs.
                if i \<in> set (input_blob_indices (m_net demo_session))
                   \<and> qualifies (blobs (m_net demo_session) ! i)
                then shape (bs ! i)
                     = (shape (blobs (m_net demo_session) ! i))[0 := int 2147483648 - 2 ^ 32]
                else bs ! i = blobs (m_net demo_session) ! i)
          \<and> net_Reshape demo_engine bs = Some bs'
          \<and> demo_session
              \<lparr>m_net := demo_net\<lparr>blobs := [\<lparr>shape = [- 2147483648, 2], data = [0, 0]\<rparr>,
                                            \<lparr>shape = [- 2147483648, 1], data = [0]\<rparr>,
                                            \<lparr>shape = [- 2147483648, 2], data = [0, 0]\<rparr>]\<rparr>,
                m_batch_size := 2147483648\<rparr>
            = demo_session\<lparr>m_net := (m_net demo_session)\<lparr>blobs := bs'\<rparr>,
                m_batch_size := 2147483648\<rparr>)
   \<and> Reshape demo_strict_engine 2147483648 demo_session = None
   \<and> (0::nat) < 1
   \<and> Reshape demo_engine 0 demo_session = Some (InvalidArgument BatchSizeTooSmall, demo_session)"
proof -
  have h: "(1::nat) \<le> 4 \<and> (4::nat) < 2 ^ 31 \<and> 4 \<noteq> m_batch_size demo_session
    \<and> Reshape demo_engine 4 demo_session
        = Some (OK, demo_session
            \<lparr>m_net := demo_net\<lparr>blobs := [\<lparr>shape = [4, 2], data = replicate 8 0\<rparr>,
                                          \<lparr>shape = [4, 1], data = replicate 4 0\<rparr>,
                                          \<lparr>shape = [4, 2], data = replicate 8 0\<rparr>]\<rparr>,
              m_batch_size := 4\<rparr>)"
    by (simp add: demo_defs run_defs)
  have big: "(2::nat) ^ 31 \<le> 2147483648 \<and> (2147483648::nat) < 2 ^ 32
      \<and> 2147483648 \<noteq> m_batch_size demo_session
      \<and> Reshape demo_engine 2147483648 demo_session
          = Some (OK, demo_session
              \<lparr>m_net := demo_net\<lparr>blobs := [\<lparr>shape = [- 2147483648, 2], data = [0, 0]\<rparr>,
                                            \<lparr>shape = [- 2147483648, 1], data = [0]\<rparr>,
                                            \<lparr>shape = [- 2147483648, 2], data = [0, 0]\<rparr>]\<rparr>,
                m_batch_size := 2147483648\<rparr>)"
    by (simp add: demo_defs run_defs)
  have strict: "Reshape demo_strict_engine 2147483648 demo_session = None"
    by (simp add: demo_strict_engine_def demo_defs run_defs)
  have z: "(0::nat) < 1" by simp
  note grown = C5_Reshape [where b = 4 and s = demo_session and E = demo_engine,
      THEN conjunct1, rule_format, OF h, THEN conjunct2]
  note wrapped = C5_Reshape [where b = 2147483648 and s = demo_session and E = demo_engine,
      THEN conjunct2, THEN conjunct1, rule_format, OF big, THEN conjunct2]
  note rejected = C5_Reshape [where b = 0 and s = demo_session and E = demo_engine,
      THEN conjunct2, THEN conjunct2, rule_format, OF z]
  show ?thesis
    apply (rule conjI, rule h)
    apply (rule conjI, rule grown)
    apply (rule conjI, rule big)
    apply (rule conjI, rule wrapped)
    apply (rule conjI, rule strict)
    apply (rule conjI, rule z)
    apply (rule rejected)
    done
qed

text \<open>
  C9. Calling \<^verbatim>\<open>Reshape(c)\<close> twice in a row with the same \<open>c \<ge> 1\<close>: the second call
  returns success and the session after it (capacity, buffer shapes and everything else)
  is the session after the first call.
\<close>

theorem C9_Reshape_twice:
  "1 \<le> c \<Longrightarrow> Reshape E c s = Some (st, s1) \<Longrightarrow> st = OK \<and> Reshape E c s1 = Some (OK, s1)"
  by (auto simp: Reshape_def split: if_splits Option.bind_splits)

theorem C9_Reshape_twice_witness:
  "(1::nat) \<le> 4
   \<and> Reshape demo_engine 4 demo_session
       = Some (OK, demo_session
           \<lparr>m_net := demo_net\<lparr>blobs := [\<lparr>shape = [4, 2], data = replicate 8 0\<rparr>,
                                         \<lparr>shape = [4, 1], data = replicate 4 0\<rparr>,
                                         \<lparr>shape = [4, 2], data = replicate 8 0\<rparr>]\<rparr>,
             m_batch_size := 4\<rparr>)
   \<and> Reshape demo_engine 4 (demo_session
           \<lparr>m_net := demo_net\<lparr>blobs := [\<lparr>shape = [4, 2], data = replicate 8 0\<rparr>,
                                         \<lparr>shape = [4, 1], data = replicate 4 0\<rparr>,
                                         \<lparr>shape = [4, 2], data = replicate 8 0\<rparr>]\<rparr>,
             m_batch_size := 4\<rparr>)
       = Some (OK, demo_session
           \<lparr>m_net := demo_net\<lparr>blobs := [\<lparr>shape = [4, 2], data = replicate 8 0\<rparr>,
                                         \<lparr>shape = [4, 1], data = replicate 4 0\<rparr>,
                                         \<lparr>shape = [4, 2], data = replicate 8 0\<rparr>]\<rparr>,
             m_batch_size := 4\<rparr>)"
proof -
  have first: "Reshape demo_engine 4 demo_session
       = Some (OK, demo_session
           \<lparr>m_net := demo_net\<lparr>blobs := [\<lparr>shape = [4, 2], data = replicate 8 0\<rparr>,
                                         \<lparr>shape = [4, 1], data = replicate 4 0\<rparr>,
                                         \<lparr>shape = [4, 2], data = replicate 8 0\<rparr>]\<rparr>,
             m_batch_size := 4\<rparr>)"
    by (simp add: demo_defs run_defs)
  have "(1::nat) \<le> 4" by simp
  from C9_Reshape_twice [OF this first] first show ?thesis by simp
qed

subsection \<open>The steps of Run\<close>

lemma grow_frame:
  assumes "grow E b s = Some (st, s')"
  shows "m_input_blob_map s' = m_input_blob_map s"
    and "m_output_blob_map s' = m_output_blob_map s"
    and "forward_passes (m_net s') = forward_passes (m_net s)"
    and "1 \<le> b \<Longrightarrow> st = OK \<and> m_batch_size s' = max (m_batch_size s) b"
    and "b \<le> m_batch_size s \<Longrightarrow> st = OK \<and> s' = s"
  using assms Reshape_frame [of E b s st s']
  by (auto simp: grow_def split: if_splits)

lemma Run_early:
  "\<not> passes_checks s inputs target_node_names
   \<Longrightarrow> \<exists>e. Run E inputs output_tensor_names target_node_names outputs s
             = Some (InvalidArgument e, outputs, s)
           \<and> e \<in> {TargetNodesNotSupported, ExpectedInputs (length (m_input_blob_map s)) (length inputs),
                   BatchSizeUndetermined, InvalidBatchSize 0}"
  by (auto simp: Run_def Let_def passes_checks_def determined_batch_def)

lemma Run_reached:
  assumes run: "Run E inputs output_tensor_names target_node_names outputs s = Some (st, outs, s')"
    and pass: "passes_checks s inputs target_node_names"
  shows "\<exists>s1 st2 bs.
    grow E (determined_batch inputs) s = Some (OK, s1)
    \<and> copy_inputs (m_input_blob_map s) (determined_batch inputs) inputs (blobs (m_net s1)) = Some (st2, bs)
    \<and> (st2 \<noteq> OK \<longrightarrow> st = st2 \<and> outs = outputs \<and> s' = s1\<lparr>m_net := (m_net s1)\<lparr>blobs := bs\<rparr>\<rparr>)
    \<and> (st2 = OK \<longrightarrow> (\<exists>n. net_Forward E (layer_params (m_net s1)) bs = Some n
        \<and> copy_outputs (m_output_blob_map s) (determined_batch inputs) output_tensor_names n [] = Some (st, outs)
        \<and> s' = s1\<lparr>m_net := (m_net s1)\<lparr>blobs := n, forward_passes := Suc (forward_passes (m_net s1))\<rparr>\<rparr>))"
proof -
  let ?b = "determined_batch inputs"
  from pass have b1: "1 \<le> ?b" by (simp add: passes_checks_def)
  from run pass obtain st1 s1 where g: "grow E ?b s = Some (st1, s1)"
    by (auto simp: Run_def Let_def passes_checks_def determined_batch_def split: option.splits)
  from grow_frame [OF g] b1 have ok: "st1 = OK"
    and maps: "m_input_blob_map s1 = m_input_blob_map s" "m_output_blob_map s1 = m_output_blob_map s"
    by auto
  from run pass g ok obtain st2 bs where
    c: "copy_inputs (m_input_blob_map s1) ?b inputs (blobs (m_net s1)) = Some (st2, bs)"
    by (auto simp: Run_def Let_def passes_checks_def determined_batch_def split: option.splits)
  have g': "grow E ?b s = Some (OK, s1)" using g ok by simp
  have c': "copy_inputs (m_input_blob_map s) ?b inputs (blobs (m_net s1)) = Some (st2, bs)"
    using c maps by simp
  have e: "st = st2 \<and> outs = outputs \<and> s' = s1\<lparr>m_net := (m_net s1)\<lparr>blobs := bs\<rparr>\<rparr>" if "st2 \<noteq> OK"
    using run pass g ok c that
    by (auto simp: Run_def Let_def passes_checks_def determined_batch_def)
  have k: "\<exists>n. net_Forward E (layer_params (m_net s1)) bs = Some n
        \<and> copy_outputs (m_output_blob_map s) ?b output_tensor_names n [] = Some (st, outs)
        \<and> s' = s1\<lparr>m_net := (m_net s1)\<lparr>blobs := n, forward_passes := Suc (forward_passes (m_net s1))\<rparr>\<rparr>"
    if "st2 = OK"
    using run pass g ok c that maps
    by (auto simp: Run_def Let_def passes_checks_def determined_batch_def Net_Forward_def
        split: option.splits)
  show ?thesis
    apply (rule exI [of _ s1])
    apply (rule exI [of _ st2])
    apply (rule exI [of _ bs])
    apply (rule conjI, rule g')
    apply (rule conjI, rule c')
    apply (rule conjI, rule impI, erule e)
    apply (rule impI, erule k)
    done
qed

lemma Run_reached_grow:
  assumes "Run E inputs output_tensor_names target_node_names outputs s = Some (st, outs, s')"
    and "passes_checks s inputs target_node_names"
  shows "\<exists>s1 bs st2. grow E (determined_batch inputs) s = Some (OK, s1)
    \<and> copy_inputs (m_input_blob_map s) (determined_batch inputs) inputs (blobs (m_net s1)) = Some (st2, bs)
    \<and> m_input_blob_map s' = m_input_blob_map s1
    \<and> m_output_blob_map s' = m_output_blob_map s1
    \<and> m_batch_size s' = m_batch_size s1
    \<and> (st2 \<noteq> OK \<longrightarrow> st = st2 \<and> outs = outputs \<and> m_net s' = (m_net s1)\<lparr>blobs := bs\<rparr>)
    \<and> (st2 = OK \<longrightarrow> forward_passes (m_net s') = Suc (forward_passes (m_net s1))
          \<and> copy_outputs (m_output_blob_map s) (determined_batch inputs) output_tensor_names
               (blobs (m_net s')) [] = Some (st, outs))"
proof -
  from Run_reached [OF assms] obtain s1 st2 bs where
    g: "grow E (determined_batch inputs) s = Some (OK, s1)"
    and c: "copy_inputs (m_input_blob_map s) (determined_batch inputs) inputs (blobs (m_net s1)) = Some (st2, bs)"
    and e: "st2 \<noteq> OK \<longrightarrow> st = st2 \<and> outs = outputs \<and> s' = s1\<lparr>m_net := (m_net s1)\<lparr>blobs := bs\<rparr>\<rparr>"
    and k: "st2 = OK \<longrightarrow> (\<exists>n. net_Forward E (layer_params (m_net s1)) bs = Some n
        \<and> copy_outputs (m_output_blob_map s) (determined_batch inputs) output_tensor_names n [] = Some (st, outs)
        \<and> s' = s1\<lparr>m_net := (m_net s1)\<lparr>blobs := n, forward_passes := Suc (forward_passes (m_net s1))\<rparr>\<rparr>)"
    by (elim exE conjE)
  show ?thesis
  proof (cases "st2 = OK")
    case True
    with k obtain n where
      o: "copy_outputs (m_output_blob_map s) (determined_batch inputs) output_tensor_names n [] = Some (st, outs)"
      and s': "s' = s1\<lparr>m_net := (m_net s1)\<lparr>blobs := n, forward_passes := Suc (forward_passes (m_net s1))\<rparr>\<rparr>"
      by (elim impE exE conjE)
    from s' have "blobs (m_net s') = n" "forward_passes (m_net s') = Suc (forward_passes (m_net s1))"
      "m_input_blob_map s' = m_input_blob_map s1" "m_output_blob_map s' = m_output_blob_map s1"
      "m_batch_size s' = m_batch_size s1"
      by simp_all
    with g c o True show ?thesis
      by (intro exI [of _ s1] exI [of _ bs] exI [of _ st2]) simp
  next
    case False
    with e have "st = st2" "outs = outputs" and s': "s' = s1\<lparr>m_net := (m_net s1)\<lparr>blobs := bs\<rparr>\<rparr>"
      by simp_all
    from s' have "m_net s' = (m_net s1)\<lparr>blobs := bs\<rparr>"
      "m_input_blob_map s' = m_input_blob_map s1" "m_output_blob_map s' = m_output_blob_map s1"
      "m_batch_size s' = m_batch_size s1"
      by simp_all
    with g c False \<open>st = st2\<close> \<open>outs = outputs\<close> show ?thesis
      by (intro exI [of _ s1] exI [of _ bs] exI [of _ st2]) simp
  qed
qed

lemma dim_size_0: "dim_size t 0 = Some d \<longleftrightarrow> dims t \<noteq> [] \<and> d = dims t ! 0"
  by (auto simp: dim_size_def vector_at_def)

lemma copy_inputs_OK_no_fault:
  "copy_inputs m b ins bs = Some (OK, bs') \<Longrightarrow> inp \<in> set ins \<Longrightarrow> \<not> input_fault m b inp"
proof (induction ins arbitrary: bs)
  case Nil
  then show ?case by simp
next
  case (Cons a ins)
  from Cons.prems(1) obtain idx where idx: "map_of m (fst a) = Some idx"
    by (auto split: option.splits)
  from Cons.prems(1) idx have d: "dim_size (snd a) 0 = Some b"
    by (auto split: option.splits if_splits)
  from Cons.prems(1) idx d obtain bs1 where rest: "copy_inputs m b ins bs1 = Some (OK, bs')"
    by (auto split: option.splits if_splits)
  show ?case
  proof (cases "inp = a")
    case True
    with idx d show ?thesis by (simp add: input_fault_def dim_size_0)
  next
    case False
    with Cons.prems(2) have "inp \<in> set ins" by simp
    from Cons.IH [OF rest this] show ?thesis .
  qed
qed

lemma copy_inputs_error:
  assumes "copy_inputs m b ins bs = Some (st, bs')" and "st \<noteq> OK"
  shows "\<exists>pre inp rest. ins = pre @ inp # rest
           \<and> copy_inputs m b pre bs = Some (OK, bs')
           \<and> input_fault m b inp
           \<and> st = InvalidArgument (if map_of m (fst inp) = None then InputDoesNotExist (fst inp)
                                    else IncorrectBatchSize (fst inp))"
  using assms
proof (induction ins arbitrary: bs)
  case Nil
  then show ?case by simp
next
  case (Cons a ins)
  show ?case
  proof (cases "input_fault m b a")
    case True
    show ?thesis
    proof (cases "map_of m (fst a)")
      case None
      with Cons.prems have "st = InvalidArgument (InputDoesNotExist (fst a))" "bs' = bs"
        by auto
      with None True show ?thesis
        by (intro exI [of _ "[]"] exI [of _ a] exI [of _ ins]) simp
    next
      case (Some idx)
      with True have "dims (snd a) \<noteq> []" "dims (snd a) ! 0 \<noteq> b"
        by (auto simp: input_fault_def)
      with Cons.prems Some have "st = InvalidArgument (IncorrectBatchSize (fst a))" "bs' = bs"
        by (auto simp: dim_size_def vector_at_def)
      with Some True show ?thesis
        by (intro exI [of _ "[]"] exI [of _ a] exI [of _ ins]) simp
    qed
  next
    case False
    then obtain idx where idx: "map_of m (fst a) = Some idx"
      by (auto simp: input_fault_def)
    from Cons.prems(1) idx obtain d where d: "dim_size (snd a) 0 = Some d"
      by (auto split: option.splits)
    with False have db: "d = b" by (auto simp: input_fault_def dim_size_0)
    from Cons.prems(1) idx d db obtain blob d' where
      blob: "vector_at bs idx = Some blob" "copy_n (vals (snd a)) (data blob) = Some d'"
      and rest: "copy_inputs m b ins (bs[idx := blob\<lparr>data := d'\<rparr>]) = Some (st, bs')"
      by (auto split: option.splits)
    from Cons.IH [OF rest Cons.prems(2)] obtain pre inp rest' where
      p: "ins = pre @ inp # rest'"
      "copy_inputs m b pre (bs[idx := blob\<lparr>data := d'\<rparr>]) = Some (OK, bs')"
      "input_fault m b inp"
      "st = InvalidArgument (if map_of m (fst inp) = None then InputDoesNotExist (fst inp)
                             else IncorrectBatchSize (fst inp))"
      by blast
    from p(2) idx d db blob have "copy_inputs m b (a # pre) bs = Some (OK, bs')"
      by simp
    with p(1,3,4) show ?thesis
      by (intro exI [of _ "a # pre"] exI [of _ inp] exI [of _ rest']) simp
  qed
qed

lemma copy_inputs_fault:
  assumes "copy_inputs m b ins bs = Some (st, bs')" and "\<exists>inp\<in>set ins. input_fault m b inp"
  shows "st \<noteq> OK"
  using assms copy_inputs_OK_no_fault by blast



lemma Run_frame:
  assumes run: "Run E inputs output_tensor_names target_node_names outputs s = Some (st, outs, s')"
  shows "m_input_blob_map s' = m_input_blob_map s"
    and "m_output_blob_map s' = m_output_blob_map s"
    and "m_batch_size s \<le> m_batch_size s'"
    and "passes_checks s inputs target_node_names \<Longrightarrow> determined_batch inputs \<le> m_batch_size s'"
proof -
  have "m_input_blob_map s' = m_input_blob_map s \<and> m_output_blob_map s' = m_output_blob_map s
      \<and> m_batch_size s \<le> m_batch_size s'
      \<and> (passes_checks s inputs target_node_names \<longrightarrow> determined_batch inputs \<le> m_batch_size s')"
  proof (cases "passes_checks s inputs target_node_names")
    case False
    from Run_early [OF False, of E output_tensor_names outputs] run have "s' = s" by auto
    with False show ?thesis by simp
  next
    case True
    from True have b1: "1 \<le> determined_batch inputs" by (simp add: passes_checks_def)
    from Run_reached_grow [OF run True] obtain s1 where
      g: "grow E (determined_batch inputs) s = Some (OK, s1)"
      and same: "m_input_blob_map s' = m_input_blob_map s1"
        "m_output_blob_map s' = m_output_blob_map s1" "m_batch_size s' = m_batch_size s1"
      by (elim exE conjE)
    from grow_frame(1,2,4) [OF g] b1 same show ?thesis by simp
  qed
  then show "m_input_blob_map s' = m_input_blob_map s"
    and "m_output_blob_map s' = m_output_blob_map s"
    and "m_batch_size s \<le> m_batch_size s'"
    and "passes_checks s inputs target_node_names \<Longrightarrow> determined_batch inputs \<le> m_batch_size s'"
    by simp_all
qed

lemma copy_defined_cong:
  "map (length \<circ> data) bs' = map (length \<circ> data) bs \<Longrightarrow> copy_defined m bs' inp = copy_defined m bs inp"
proof -
  assume eq: "map (length \<circ> data) bs' = map (length \<circ> data) bs"
  then have len: "length bs' = length bs" by (rule map_eq_imp_length_eq)
  have "length (data (bs' ! i)) = length (data (bs ! i))" if "i < length bs" for i
  proof -
    from that len have "map (length \<circ> data) bs' ! i = length (data (bs' ! i))"
      "map (length \<circ> data) bs ! i = length (data (bs ! i))"
      by simp_all
    with eq show ?thesis by simp
  qed
  with len show ?thesis by (auto simp: copy_defined_def split: option.splits)
qed

lemma copy_inputs_defined:
  "\<forall>inp\<in>set ins. input_fault m b inp \<or> copy_defined m bs inp
   \<Longrightarrow> \<exists>st bs'. copy_inputs m b ins bs = Some (st, bs')"
proof (induction ins arbitrary: bs)
  case Nil
  then show ?case by simp
next
  case (Cons a ins)
  show ?case
  proof (cases "map_of m (fst a)")
    case None
    then show ?thesis by simp
  next
    case (Some idx)
    show ?thesis
    proof (cases "dims (snd a) \<noteq> [] \<and> dims (snd a) ! 0 \<noteq> b")
      case True
      with Some show ?thesis by (simp add: dim_size_def vector_at_def)
    next
      case False
      with Some Cons.prems have "copy_defined m bs a"
        by (simp add: input_fault_def)
      with Some have rank: "dims (snd a) \<noteq> []" and lt: "idx < length bs"
        and fits: "length (vals (snd a)) \<le> length (data (bs ! idx))"
        by (simp_all add: copy_defined_def)
      from rank False have d: "dim_size (snd a) 0 = Some b"
        by (simp add: dim_size_def vector_at_def)
      let ?bs = "bs[idx := (bs ! idx)\<lparr>data := vals (snd a) @ drop (length (vals (snd a))) (data (bs ! idx))\<rparr>]"
      have same: "map (length \<circ> data) ?bs = map (length \<circ> data) bs"
      proof (rule nth_equalityI)
        show "length (map (length \<circ> data) ?bs) = length (map (length \<circ> data) bs)"
          by simp
      next
        fix i
        assume "i < length (map (length \<circ> data) ?bs)"
        then have i: "i < length bs" by simp
        show "map (length \<circ> data) ?bs ! i = map (length \<circ> data) bs ! i"
        proof (cases "i = idx")
          case True
          with i fits show ?thesis by simp
        next
          case False
          with i show ?thesis by simp
        qed
      qed
      have "\<forall>inp\<in>set ins. input_fault m b inp \<or> copy_defined m ?bs inp"
        using Cons.prems by (simp only: copy_defined_cong [OF same]) simp
      from Cons.IH [OF this] obtain st bs' where "copy_inputs m b ins ?bs = Some (st, bs')"
        by blast
      with Some d lt fits show ?thesis
        by (simp add: vector_at_def copy_n_def)
    qed
  qed
qed

lemma Run_passes:
  "passes_checks s inputs target_node_names
   \<Longrightarrow> Run E inputs output_tensor_names target_node_names outputs s =
       (case grow E (determined_batch inputs) s of
          None \<Rightarrow> None
        | Some (st1, s1) \<Rightarrow>
            if st1 \<noteq> OK then Some (st1, outputs, s1)
            else
              (case copy_inputs (m_input_blob_map s1) (determined_batch inputs) inputs
                      (blobs (m_net s1)) of
                 None \<Rightarrow> None
               | Some (st2, bs) \<Rightarrow>
                   if st2 \<noteq> OK
                   then Some (st2, outputs, s1\<lparr>m_net := (m_net s1)\<lparr>blobs := bs\<rparr>\<rparr>)
                   else
                     (case Net_Forward E ((m_net s1)\<lparr>blobs := bs\<rparr>) of
                        None \<Rightarrow> None
                      | Some n \<Rightarrow>
                          (case copy_outputs (m_output_blob_map s1) (determined_batch inputs)
                                  output_tensor_names (blobs n) [] of
                             None \<Rightarrow> None
                           | Some (st3, outs) \<Rightarrow> Some (st3, outs, s1\<lparr>m_net := n\<rparr>)))))"
  unfolding determined_batch_def passes_checks_def
  by (simp add: Run_def Let_def)

lemma Run_returns_error:
  assumes fault: "\<exists>inp\<in>set inputs. input_fault (m_input_blob_map s) (determined_batch inputs) inp"
    and g: "grow E (determined_batch inputs) s = Some (OK, s1)"
    and d: "\<forall>inp\<in>set inputs. input_fault (m_input_blob_map s) (determined_batch inputs) inp
              \<or> copy_defined (m_input_blob_map s) (blobs (m_net s1)) inp"
  shows "\<exists>e s'. Run E inputs output_tensor_names target_node_names outputs s
           = Some (InvalidArgument e, outputs, s')"
proof (cases "passes_checks s inputs target_node_names")
  case False
  from Run_early [OF False, of E output_tensor_names outputs] show ?thesis by blast
next
  case True
  from grow_frame(1) [OF g] have m: "m_input_blob_map s1 = m_input_blob_map s" .
  from copy_inputs_defined [OF d] obtain st2 bs where
    c: "copy_inputs (m_input_blob_map s) (determined_batch inputs) inputs (blobs (m_net s1))
          = Some (st2, bs)"
    by blast
  from copy_inputs_fault [OF c fault] have "st2 \<noteq> OK" .
  then obtain e where e: "st2 = InvalidArgument e" by (cases st2) auto
  have "Run E inputs output_tensor_names target_node_names outputs s
      = Some (InvalidArgument e, outputs, s1\<lparr>m_net := (m_net s1)\<lparr>blobs := bs\<rparr>\<rparr>)"
    by (simp add: Run_passes [OF True] g m c e)
  then show ?thesis by blast
qed

subsection \<open>Rejected requests\<close>

text \<open>
  C6. \<^verbatim>\<open>Run\<close> rejects with an InvalidArgument error (1) a request with a non-empty list
  of target node names, whatever else it holds, (2) a request with no input or with fewer
  inputs than declared input bindings, (3) a request whose first input tensor has rank
  below 2 or a leading dimension below 1. The session returned with the error is the
  session before the call and the output list is untouched: no forward pass was executed.
\<close>

theorem C6_Run_rejects:
  "target_node_names \<noteq> []
   \<or> length inputs = 0 \<or> length inputs < length (m_input_blob_map s)
   \<or> length (dims (snd (inputs ! 0))) < 2 \<or> dims (snd (inputs ! 0)) ! 0 < 1
   \<Longrightarrow> \<exists>e. Run E inputs output_tensor_names target_node_names outputs s
           = Some (InvalidArgument e, outputs, s)"
  by (auto simp: Run_def Let_def uint_of_int64_def)

theorem C6_Run_rejects_witness:
  "(\<exists>e. Run demo_engine
          [(''data'', \<lparr>dims = [1, 2], vals = [7, 8]\<rparr>), (''label'', \<lparr>dims = [1, 1], vals = [9]\<rparr>)]
          [''prob''] [''prob''] [] demo_session = Some (InvalidArgument e, [], demo_session))
   \<and> (\<exists>e. Run demo_engine [(''data'', \<lparr>dims = [1, 2], vals = [7, 8]\<rparr>)]
          [''prob''] [] [] demo_session = Some (InvalidArgument e, [], demo_session))
   \<and> (\<exists>e. Run demo_engine
          [(''data'', \<lparr>dims = [2], vals = [7, 8]\<rparr>), (''label'', \<lparr>dims = [1, 1], vals = [9]\<rparr>)]
          [''prob''] [] [] demo_session = Some (InvalidArgument e, [], demo_session))
   \<and> (\<exists>e. Run demo_engine
          [(''data'', \<lparr>dims = [0, 2], vals = []\<rparr>), (''label'', \<lparr>dims = [1, 1], vals = [9]\<rparr>)]
          [''prob''] [] [] demo_session = Some (InvalidArgument e, [], demo_session))"
proof (intro conjI)
  show "\<exists>e. Run demo_engine
          [(''data'', \<lparr>dims = [1, 2], vals = [7, 8]\<rparr>), (''label'', \<lparr>dims = [1, 1], vals = [9]\<rparr>)]
          [''prob''] [''prob''] [] demo_session = Some (InvalidArgument e, [], demo_session)"
    by (rule C6_Run_rejects) simp
  show "\<exists>e. Run demo_engine [(''data'', \<lparr>dims = [1, 2], vals = [7, 8]\<rparr>)]
          [''prob''] [] [] demo_session = Some (InvalidArgument e, [], demo_session)"
    by (rule C6_Run_rejects) (simp add: demo_session_def)
  show "\<exists>e. Run demo_engine
          [(''data'', \<lparr>dims = [2], vals = [7, 8]\<rparr>), (''label'', \<lparr>dims = [1, 1], vals = [9]\<rparr>)]
          [''prob''] [] [] demo_session = Some (InvalidArgument e, [], demo_session)"
    by (rule C6_Run_rejects) simp
  show "\<exists>e. Run demo_engine
          [(''data'', \<lparr>dims = [0, 2], vals = []\<rparr>), (''label'', \<lparr>dims = [1, 1], vals = [9]\<rparr>)]
          [''prob''] [] [] demo_session = Some (InvalidArgument e, [], demo_session)"
    by (rule C6_Run_rejects) simp
qed

text \<open>
  C7. For a request whose inputs all have names bound in the input binding table: if
  some input has a leading dimension different from the batch size determined from the
  first input, \<^verbatim>\<open>Run\<close> returns an InvalidArgument error. Every call that returns does
  so with this error, the output list untouched and no forward pass executed. And the
  call does return when the capacity step returns and every input that passes the
  validation of the loop can be copied (\<open>copy_defined\<close>): the only calls that do not
  return are those with an abort of the engine in the capacity step or an access outside
  a tensor or a buffer before the mismatch is reached.
\<close>

theorem C7_batch_mismatch:
  assumes bound: "\<forall>inp\<in>set inputs. map_of (m_input_blob_map s) (fst inp) \<noteq> None"
    and differs: "\<exists>inp\<in>set inputs. dims (snd inp) \<noteq> [] \<and> dims (snd inp) ! 0 \<noteq> determined_batch inputs"
  shows "(Run E inputs output_tensor_names target_node_names outputs s = Some (st, outs, s')
          \<longrightarrow> (\<exists>e. st = InvalidArgument e) \<and> outs = outputs
              \<and> forward_passes (m_net s') = forward_passes (m_net s))
     \<and> (grow E (determined_batch inputs) s = Some (OK, s1)
          \<and> (\<forall>inp\<in>set inputs.
                input_fault (m_input_blob_map s) (determined_batch inputs) inp
                \<or> copy_defined (m_input_blob_map s) (blobs (m_net s1)) inp)
          \<longrightarrow> (\<exists>e s2. Run E inputs output_tensor_names target_node_names outputs s
                        = Some (InvalidArgument e, outputs, s2)))"
proof (intro conjI impI)
  from differs have fault:
    "\<exists>inp\<in>set inputs. input_fault (m_input_blob_map s) (determined_batch inputs) inp"
    by (auto simp: input_fault_def)
  {
    assume "grow E (determined_batch inputs) s = Some (OK, s1)
          \<and> (\<forall>inp\<in>set inputs.
                input_fault (m_input_blob_map s) (determined_batch inputs) inp
                \<or> copy_defined (m_input_blob_map s) (blobs (m_net s1)) inp)"
    then have g: "grow E (determined_batch inputs) s = Some (OK, s1)"
      and d: "\<forall>inp\<in>set inputs.
                input_fault (m_input_blob_map s) (determined_batch inputs) inp
                \<or> copy_defined (m_input_blob_map s) (blobs (m_net s1)) inp"
      by simp_all
    from Run_returns_error [OF fault g d]
    show "\<exists>e s2. Run E inputs output_tensor_names target_node_names outputs s
                        = Some (InvalidArgument e, outputs, s2)" .
  }
  assume run: "Run E inputs output_tensor_names target_node_names outputs s = Some (st, outs, s')"
  have "(\<exists>e. st = InvalidArgument e) \<and> outs = outputs
              \<and> forward_passes (m_net s') = forward_passes (m_net s)"
  proof (cases "passes_checks s inputs target_node_names")
    case False
    from Run_early [OF False, of E output_tensor_names outputs] run show ?thesis by auto
  next
    case True
    from Run_reached_grow [OF run True] obtain s1 bs st2 where
      g: "grow E (determined_batch inputs) s = Some (OK, s1)"
      and c: "copy_inputs (m_input_blob_map s) (determined_batch inputs) inputs (blobs (m_net s1)) = Some (st2, bs)"
      and e: "st2 \<noteq> OK \<longrightarrow> st = st2 \<and> outs = outputs \<and> m_net s' = (m_net s1)\<lparr>blobs := bs\<rparr>"
      by (elim exE conjE)
    from copy_inputs_fault [OF c fault] have bad: "st2 \<noteq> OK" .
    then obtain x where "st2 = InvalidArgument x" by (cases st2) auto
    with e bad grow_frame(3) [OF g] show ?thesis by simp
  qed
  then show "\<exists>e. st = InvalidArgument e" and "outs = outputs"
    and "forward_passes (m_net s') = forward_passes (m_net s)"
    by simp_all
qed

text \<open>
  The demo session, a first input of leading dimension 4 and a second one of leading
  dimension 5.
\<close>

theorem C7_batch_mismatch_witness:
  "Run demo_engine demo_mismatch [''prob''] [] [] demo_session
     = Some (InvalidArgument (IncorrectBatchSize ''label''), [],
         demo_session
           \<lparr>m_net := demo_net\<lparr>blobs := [\<lparr>shape = [4, 2], data = [1, 2, 3, 4, 5, 6, 7, 8]\<rparr>,
                                         \<lparr>shape = [4, 1], data = replicate 4 0\<rparr>,
                                         \<lparr>shape = [4, 2], data = replicate 8 0\<rparr>]\<rparr>,
             m_batch_size := 4\<rparr>)
   \<and> map fst demo_mismatch = [''data'', ''label'']
   \<and> map_of (m_input_blob_map demo_session) ''data'' = Some 0
   \<and> map_of (m_input_blob_map demo_session) ''label'' = Some 1
   \<and> determined_batch demo_mismatch = 4
   \<and> (\<exists>inp\<in>set demo_mismatch.
         dims (snd inp) \<noteq> [] \<and> dims (snd inp) ! 0 \<noteq> determined_batch demo_mismatch)
   \<and> (\<exists>e. InvalidArgument (IncorrectBatchSize ''label'') = InvalidArgument e)
   \<and> forward_passes (m_net (demo_session
          \<lparr>m_net := demo_net\<lparr>blobs := [\<lparr>shape = [4, 2], data = [1, 2, 3, 4, 5, 6, 7, 8]\<rparr>,
                                        \<lparr>shape = [4, 1], data = replicate 4 0\<rparr>,
                                        \<lparr>shape = [4, 2], data = replicate 8 0\<rparr>]\<rparr>,
            m_batch_size := 4\<rparr>))
       = forward_passes (m_net demo_session)
   \<and> grow demo_engine (determined_batch demo_mismatch) demo_session
       = Some (OK, demo_session
           \<lparr>m_net := demo_net\<lparr>blobs := [\<lparr>shape = [4, 2], data = replicate 8 0\<rparr>,
                                         \<lparr>shape = [4, 1], data = replicate 4 0\<rparr>,
                                         \<lparr>shape = [4, 2], data = replicate 8 0\<rparr>]\<rparr>,
             m_batch_size := 4\<rparr>)
   \<and> copy_defined (m_input_blob_map demo_session)
        [\<lparr>shape = [4, 2], data = replicate 8 0\<rparr>, \<lparr>shape = [4, 1], data = replicate 4 0\<rparr>,
         \<lparr>shape = [4, 2], data = replicate 8 0\<rparr>]
        (demo_mismatch ! 0)
   \<and> input_fault (m_input_blob_map demo_session) (determined_batch demo_mismatch)
        (demo_mismatch ! 1)
   \<and> (\<exists>e s2. Run demo_engine demo_mismatch [''prob''] [] [] demo_session
                = Some (InvalidArgument e, [], s2))"
proof -
  have run: "Run demo_engine demo_mismatch [''prob''] [] [] demo_session
     = Some (InvalidArgument (IncorrectBatchSize ''label''), [],
         demo_session
           \<lparr>m_net := demo_net\<lparr>blobs := [\<lparr>shape = [4, 2], data = [1, 2, 3, 4, 5, 6, 7, 8]\<rparr>,
                                         \<lparr>shape = [4, 1], data = replicate 4 0\<rparr>,
                                         \<lparr>shape = [4, 2], data = replicate 8 0\<rparr>]\<rparr>,
             m_batch_size := 4\<rparr>)"
    by (simp add: demo_defs run_defs demo_mismatch_def)
  have bound: "\<forall>inp\<in>set demo_mismatch. map_of (m_input_blob_map demo_session) (fst inp) \<noteq> None"
    by (simp add: demo_mismatch_def demo_session_def)
  have names: "map fst demo_mismatch = [''data'', ''label'']"
    "map_of (m_input_blob_map demo_session) ''data'' = Some 0"
    "map_of (m_input_blob_map demo_session) ''label'' = Some 1"
    "determined_batch demo_mismatch = 4"
    by (simp_all add: demo_mismatch_def demo_session_def determined_batch_def uint_of_int64_def)
  have differs: "\<exists>inp\<in>set demo_mismatch.
         dims (snd inp) \<noteq> [] \<and> dims (snd inp) ! 0 \<noteq> determined_batch demo_mismatch"
    by (simp add: demo_mismatch_def determined_batch_def uint_of_int64_def)
  have grown: "grow demo_engine (determined_batch demo_mismatch) demo_session
       = Some (OK, demo_session
           \<lparr>m_net := demo_net\<lparr>blobs := [\<lparr>shape = [4, 2], data = replicate 8 0\<rparr>,
                                         \<lparr>shape = [4, 1], data = replicate 4 0\<rparr>,
                                         \<lparr>shape = [4, 2], data = replicate 8 0\<rparr>]\<rparr>,
             m_batch_size := 4\<rparr>)"
    by (simp add: determined_batch_def demo_mismatch_def demo_defs run_defs)
  have first: "copy_defined (m_input_blob_map demo_session)
        [\<lparr>shape = [4, 2], data = replicate 8 0\<rparr>, \<lparr>shape = [4, 1], data = replicate 4 0\<rparr>,
         \<lparr>shape = [4, 2], data = replicate 8 0\<rparr>]
        (demo_mismatch ! 0)"
    by (simp add: copy_defined_def demo_mismatch_def demo_session_def)
  have second: "input_fault (m_input_blob_map demo_session) (determined_batch demo_mismatch)
        (demo_mismatch ! 1)"
    by (simp add: input_fault_def determined_batch_def uint_of_int64_def demo_mismatch_def
        demo_session_def)
  have defined: "\<forall>inp\<in>set demo_mismatch.
      input_fault (m_input_blob_map demo_session) (determined_batch demo_mismatch) inp
      \<or> copy_defined (m_input_blob_map demo_session)
          (blobs (m_net (demo_session
             \<lparr>m_net := demo_net\<lparr>blobs := [\<lparr>shape = [4, 2], data = replicate 8 0\<rparr>,
                                           \<lparr>shape = [4, 1], data = replicate 4 0\<rparr>,
                                           \<lparr>shape = [4, 2], data = replicate 8 0\<rparr>]\<rparr>,
               m_batch_size := 4\<rparr>))) inp"
    by (simp add: input_fault_def copy_defined_def determined_batch_def uint_of_int64_def
        demo_mismatch_def demo_session_def)
  note both = C7_batch_mismatch [OF bound differs]
  note rejected = both [THEN conjunct1, rule_format, OF run]
  note returns = both [THEN conjunct2, rule_format, OF conjI [OF grown defined]]
  from run names differs rejected [THEN conjunct1] rejected [THEN conjunct2, THEN conjunct2]
    grown first second returns
  show ?thesis by (intro conjI)
qed

text \<open>
  C1, as amended. Any validation failure of \<^verbatim>\<open>Run\<close> (unsupported target selectors, wrong
  input count, unparseable batch size, unknown input name, or batch-size mismatch of an
  input) yields an InvalidArgument error with the output list untouched and without a
  forward pass. When one of the first three checks fails, the session is unchanged. An
  unknown input name or a batch-size mismatch is found inside the copy loop: the session
  returned with the error is the session after the capacity step in which the inputs
  listed before the first offending input, and only those, have been copied into their
  buffers. The call returns whenever one of the first three checks fails, and otherwise
  when the capacity step returns and every input that passes the validation of the loop
  can be copied (\<open>copy_defined\<close>).
\<close>

theorem C1_validation_failure:
  assumes fail: "\<not> passes_checks s inputs target_node_names
               \<or> (\<exists>inp\<in>set inputs. input_fault (m_input_blob_map s) (determined_batch inputs) inp)"
  shows "(Run E inputs output_tensor_names target_node_names outputs s = Some (st, outs, s')
      \<longrightarrow> (\<exists>e. st = InvalidArgument e) \<and> outs = outputs
       \<and> forward_passes (m_net s') = forward_passes (m_net s)
       \<and> (\<not> passes_checks s inputs target_node_names \<longrightarrow> s' = s)
       \<and> (passes_checks s inputs target_node_names \<longrightarrow>
          (\<exists>s1 pre inp rest bs.
              grow E (determined_batch inputs) s = Some (OK, s1)
            \<and> inputs = pre @ inp # rest
            \<and> (\<forall>x\<in>set pre. \<not> input_fault (m_input_blob_map s) (determined_batch inputs) x)
            \<and> input_fault (m_input_blob_map s) (determined_batch inputs) inp
            \<and> copy_inputs (m_input_blob_map s) (determined_batch inputs) pre (blobs (m_net s1))
                = Some (OK, bs)
            \<and> s' = s1\<lparr>m_net := (m_net s1)\<lparr>blobs := bs\<rparr>\<rparr>
            \<and> st = InvalidArgument
                     (if map_of (m_input_blob_map s) (fst inp) = None
                      then InputDoesNotExist (fst inp) else IncorrectBatchSize (fst inp)))))
     \<and> (\<not> passes_checks s inputs target_node_names
         \<or> (grow E (determined_batch inputs) s = Some (OK, s1)
            \<and> (\<forall>inp\<in>set inputs.
                  input_fault (m_input_blob_map s) (determined_batch inputs) inp
                  \<or> copy_defined (m_input_blob_map s) (blobs (m_net s1)) inp))
         \<longrightarrow> (\<exists>e s2. Run E inputs output_tensor_names target_node_names outputs s
                        = Some (InvalidArgument e, outputs, s2)))"
proof (rule conjI)
  show "\<not> passes_checks s inputs target_node_names
         \<or> (grow E (determined_batch inputs) s = Some (OK, s1)
            \<and> (\<forall>inp\<in>set inputs.
                  input_fault (m_input_blob_map s) (determined_batch inputs) inp
                  \<or> copy_defined (m_input_blob_map s) (blobs (m_net s1)) inp))
         \<longrightarrow> (\<exists>e s2. Run E inputs output_tensor_names target_node_names outputs s
                        = Some (InvalidArgument e, outputs, s2))"
  proof (cases "passes_checks s inputs target_node_names")
    case False
    from Run_early [OF False, of E output_tensor_names outputs] show ?thesis by blast
  next
    case True
    with fail have fault:
      "\<exists>inp\<in>set inputs. input_fault (m_input_blob_map s) (determined_batch inputs) inp"
      by simp
    show ?thesis
    proof (intro impI)
      assume "\<not> passes_checks s inputs target_node_names
         \<or> (grow E (determined_batch inputs) s = Some (OK, s1)
            \<and> (\<forall>inp\<in>set inputs.
                  input_fault (m_input_blob_map s) (determined_batch inputs) inp
                  \<or> copy_defined (m_input_blob_map s) (blobs (m_net s1)) inp))"
      with True have g: "grow E (determined_batch inputs) s = Some (OK, s1)"
        and d: "\<forall>inp\<in>set inputs.
                  input_fault (m_input_blob_map s) (determined_batch inputs) inp
                  \<or> copy_defined (m_input_blob_map s) (blobs (m_net s1)) inp"
        by simp_all
      from Run_returns_error [OF fault g d]
      show "\<exists>e s2. Run E inputs output_tensor_names target_node_names outputs s
                        = Some (InvalidArgument e, outputs, s2)" .
    qed
  qed
next
  show "Run E inputs output_tensor_names target_node_names outputs s = Some (st, outs, s')
      \<longrightarrow> (\<exists>e. st = InvalidArgument e) \<and> outs = outputs
       \<and> forward_passes (m_net s') = forward_passes (m_net s)
       \<and> (\<not> passes_checks s inputs target_node_names \<longrightarrow> s' = s)
       \<and> (passes_checks s inputs target_node_names \<longrightarrow>
          (\<exists>s1 pre inp rest bs.
              grow E (determined_batch inputs) s = Some (OK, s1)
            \<and> inputs = pre @ inp # rest
            \<and> (\<forall>x\<in>set pre. \<not> input_fault (m_input_blob_map s) (determined_batch inputs) x)
            \<and> input_fault (m_input_blob_map s) (determined_batch inputs) inp
            \<and> copy_inputs (m_input_blob_map s) (determined_batch inputs) pre (blobs (m_net s1))
                = Some (OK, bs)
            \<and> s' = s1\<lparr>m_net := (m_net s1)\<lparr>blobs := bs\<rparr>\<rparr>
            \<and> st = InvalidArgument
                     (if map_of (m_input_blob_map s) (fst inp) = None
                      then InputDoesNotExist (fst inp) else IncorrectBatchSize (fst inp))))"
  proof (rule impI)
    assume run: "Run E inputs output_tensor_names target_node_names outputs s = Some (st, outs, s')"
    show "(\<exists>e. st = InvalidArgument e) \<and> outs = outputs
       \<and> forward_passes (m_net s') = forward_passes (m_net s)
       \<and> (\<not> passes_checks s inputs target_node_names \<longrightarrow> s' = s)
       \<and> (passes_checks s inputs target_node_names \<longrightarrow>
          (\<exists>s1 pre inp rest bs.
              grow E (determined_batch inputs) s = Some (OK, s1)
            \<and> inputs = pre @ inp # rest
            \<and> (\<forall>x\<in>set pre. \<not> input_fault (m_input_blob_map s) (determined_batch inputs) x)
            \<and> input_fault (m_input_blob_map s) (determined_batch inputs) inp
            \<and> copy_inputs (m_input_blob_map s) (determined_batch inputs) pre (blobs (m_net s1))
                = Some (OK, bs)
            \<and> s' = s1\<lparr>m_net := (m_net s1)\<lparr>blobs := bs\<rparr>\<rparr>
            \<and> st = InvalidArgument
                     (if map_of (m_input_blob_map s) (fst inp) = None
                      then InputDoesNotExist (fst inp) else IncorrectBatchSize (fst inp))))"
    proof (cases "passes_checks s inputs target_node_names")
      case False
      from Run_early [OF False, of E output_tensor_names outputs] run False show ?thesis by auto
    next
      case True
      let ?m = "m_input_blob_map s" and ?b = "determined_batch inputs"
      from True fail have fault: "\<exists>inp\<in>set inputs. input_fault ?m ?b inp" by simp
      from Run_reached [OF run True] obtain s1 st2 bs where
        g: "grow E ?b s = Some (OK, s1)"
        and c: "copy_inputs ?m ?b inputs (blobs (m_net s1)) = Some (st2, bs)"
        and e: "st2 \<noteq> OK \<longrightarrow> st = st2 \<and> outs = outputs \<and> s' = s1\<lparr>m_net := (m_net s1)\<lparr>blobs := bs\<rparr>\<rparr>"
        by (elim exE conjE)
      from copy_inputs_fault [OF c fault] have bad: "st2 \<noteq> OK" .
      with e have st: "st = st2" and outs: "outs = outputs"
        and s': "s' = s1\<lparr>m_net := (m_net s1)\<lparr>blobs := bs\<rparr>\<rparr>"
        by simp_all
      from copy_inputs_error [OF c bad] obtain pre inp rest where
        split: "inputs = pre @ inp # rest"
        and pre: "copy_inputs ?m ?b pre (blobs (m_net s1)) = Some (OK, bs)"
        and inp: "input_fault ?m ?b inp"
        and st2: "st2 = InvalidArgument (if map_of ?m (fst inp) = None then InputDoesNotExist (fst inp)
                                         else IncorrectBatchSize (fst inp))"
        by blast
      have clean: "\<forall>x\<in>set pre. \<not> input_fault ?m ?b x"
        using copy_inputs_OK_no_fault [OF pre] by blast
      from s' grow_frame(3) [OF g] have fw: "forward_passes (m_net s') = forward_passes (m_net s)"
        by simp
      have "\<exists>s1 pre inp rest bs.
                  grow E ?b s = Some (OK, s1)
                \<and> inputs = pre @ inp # rest
                \<and> (\<forall>x\<in>set pre. \<not> input_fault ?m ?b x)
                \<and> input_fault ?m ?b inp
                \<and> copy_inputs ?m ?b pre (blobs (m_net s1)) = Some (OK, bs)
                \<and> s' = s1\<lparr>m_net := (m_net s1)\<lparr>blobs := bs\<rparr>\<rparr>
                \<and> st = InvalidArgument
                         (if map_of ?m (fst inp) = None
                          then InputDoesNotExist (fst inp) else IncorrectBatchSize (fst inp))"
        apply (rule exI [of _ s1], rule exI [of _ pre], rule exI [of _ inp], rule exI [of _ rest],
            rule exI [of _ bs])
        using g split clean inp pre s' st st2 by simp
      with True st st2 outs fw show ?thesis by simp
    qed
  qed
qed

text \<open>
  The demo session with a request whose second input \<open>image\<close> is not bound, and with a
  request that names a target node.
\<close>

theorem C1_validation_failure_witness:
  "Run demo_engine demo_unknown [''prob''] [] [] demo_session
     = Some (InvalidArgument (InputDoesNotExist ''image''), [],
         demo_session
           \<lparr>m_net := demo_net\<lparr>blobs := [\<lparr>shape = [1, 2], data = [7, 8]\<rparr>,
                                         \<lparr>shape = [1, 1], data = [0]\<rparr>,
                                         \<lparr>shape = [1, 2], data = [0, 0]\<rparr>]\<rparr>\<rparr>)
   \<and> (\<exists>inp\<in>set demo_unknown.
         input_fault (m_input_blob_map demo_session) (determined_batch demo_unknown) inp)
   \<and> passes_checks demo_session demo_unknown []
   \<and> (\<exists>s1 pre inp rest bs.
          grow demo_engine (determined_batch demo_unknown) demo_session = Some (OK, s1)
        \<and> demo_unknown = pre @ inp # rest
        \<and> (\<forall>x\<in>set pre.
              \<not> input_fault (m_input_blob_map demo_session) (determined_batch demo_unknown) x)
        \<and> input_fault (m_input_blob_map demo_session) (determined_batch demo_unknown) inp
        \<and> copy_inputs (m_input_blob_map demo_session) (determined_batch demo_unknown) pre
             (blobs (m_net s1)) = Some (OK, bs)
        \<and> demo_session
             \<lparr>m_net := demo_net\<lparr>blobs := [\<lparr>shape = [1, 2], data = [7, 8]\<rparr>,
                                           \<lparr>shape = [1, 1], data = [0]\<rparr>,
                                           \<lparr>shape = [1, 2], data = [0, 0]\<rparr>]\<rparr>\<rparr>
            = s1\<lparr>m_net := (m_net s1)\<lparr>blobs := bs\<rparr>\<rparr>
        \<and> InvalidArgument (InputDoesNotExist ''image'')
            = InvalidArgument
                (if map_of (m_input_blob_map demo_session) (fst inp) = None
                 then InputDoesNotExist (fst inp) else IncorrectBatchSize (fst inp)))
   \<and> grow demo_engine (determined_batch demo_unknown) demo_session = Some (OK, demo_session)
   \<and> copy_defined (m_input_blob_map demo_session) (blobs (m_net demo_session)) (demo_unknown ! 0)
   \<and> input_fault (m_input_blob_map demo_session) (determined_batch demo_unknown)
        (demo_unknown ! 1)
   \<and> (\<exists>e s2. Run demo_engine demo_unknown [''prob''] [] [] demo_session
                = Some (InvalidArgument e, [], s2))
   \<and> \<not> passes_checks demo_session demo_unknown [''prob'']
   \<and> Run demo_engine demo_unknown [''prob''] [''prob''] [] demo_session
       = Some (InvalidArgument TargetNodesNotSupported, [], demo_session)
   \<and> (\<exists>e s2. Run demo_engine demo_unknown [''prob''] [''prob''] [] demo_session
                = Some (InvalidArgument e, [], s2))"
proof -
  have run: "Run demo_engine demo_unknown [''prob''] [] [] demo_session
     = Some (InvalidArgument (InputDoesNotExist ''image''), [],
         demo_session
           \<lparr>m_net := demo_net\<lparr>blobs := [\<lparr>shape = [1, 2], data = [7, 8]\<rparr>,
                                         \<lparr>shape = [1, 1], data = [0]\<rparr>,
                                         \<lparr>shape = [1, 2], data = [0, 0]\<rparr>]\<rparr>\<rparr>)"
    by (simp add: demo_defs run_defs demo_unknown_def)
  have fault: "\<exists>inp\<in>set demo_unknown.
         input_fault (m_input_blob_map demo_session) (determined_batch demo_unknown) inp"
    by (simp add: input_fault_def determined_batch_def uint_of_int64_def demo_unknown_def
        demo_session_def)
  have pass: "passes_checks demo_session demo_unknown []"
    by (simp add: passes_checks_def determined_batch_def uint_of_int64_def demo_unknown_def
        demo_session_def)
  have grown: "grow demo_engine (determined_batch demo_unknown) demo_session
      = Some (OK, demo_session)"
    by (simp add: determined_batch_def uint_of_int64_def demo_unknown_def grow_def
        demo_session_def)
  have first: "copy_defined (m_input_blob_map demo_session) (blobs (m_net demo_session))
      (demo_unknown ! 0)"
    by (simp add: copy_defined_def demo_unknown_def demo_session_def demo_net_def)
  have second: "input_fault (m_input_blob_map demo_session) (determined_batch demo_unknown)
      (demo_unknown ! 1)"
    by (simp add: input_fault_def determined_batch_def uint_of_int64_def demo_unknown_def
        demo_session_def)
  have defined: "\<forall>inp\<in>set demo_unknown.
      input_fault (m_input_blob_map demo_session) (determined_batch demo_unknown) inp
      \<or> copy_defined (m_input_blob_map demo_session) (blobs (m_net demo_session)) inp"
    by (simp add: input_fault_def copy_defined_def determined_batch_def uint_of_int64_def
        demo_unknown_def demo_session_def demo_net_def)
  have no_pass: "\<not> passes_checks demo_session demo_unknown [''prob'']"
    by (simp add: passes_checks_def)
  have run_t: "Run demo_engine demo_unknown [''prob''] [''prob''] [] demo_session
       = Some (InvalidArgument TargetNodesNotSupported, [], demo_session)"
    by (simp add: Run_def)
  note in_loop = C1_validation_failure [OF disjI2 [OF fault]]
  note loop = in_loop [THEN conjunct1, rule_format, OF run,
      THEN conjunct2, THEN conjunct2, THEN conjunct2, THEN conjunct2, rule_format, OF pass]
  note returns = in_loop [THEN conjunct2, rule_format, OF disjI2 [OF conjI [OF grown defined]]]
  note early = C1_validation_failure [OF disjI1 [OF no_pass], THEN conjunct2, rule_format,
      OF disjI1 [OF no_pass]]
  from run fault pass loop grown first second returns no_pass run_t early
  show ?thesis by (intro conjI)
qed

text \<open>
  The claim as stated fails: the request with the unknown input \<open>image\<close> returns the
  InvalidArgument error after the values 7 and 8 of its first input have replaced the
  contents 0 and 0 of the buffer \<open>data\<close>.
\<close>

theorem C1_validation_failure_counterexample:
  "map_option fst (Run demo_engine demo_unknown [''prob''] [] [] demo_session)
     = Some (InvalidArgument (InputDoesNotExist ''image''))
   \<and> map_option (data \<circ> hd \<circ> blobs \<circ> m_net \<circ> snd \<circ> snd)
       (Run demo_engine demo_unknown [''prob''] [] [] demo_session) = Some [7, 8]
   \<and> data (hd (blobs (m_net demo_session))) = [0, 0]"
  by (simp add: demo_defs run_defs demo_unknown_def)

subsection \<open>The results of a successful Run\<close>




subsection \<open>The capacity over time\<close>

lemma Run_all_capacity:
  "Run_all E rs s = Some s'
   \<Longrightarrow> m_input_blob_map s' = m_input_blob_map s
       \<and> m_batch_size s \<le> m_batch_size s'
       \<and> (\<forall>r\<in>set rs. reaches_reshape s r \<longrightarrow> determined_batch (req_inputs r) \<le> m_batch_size s')"
proof (induction rs arbitrary: s)
  case Nil
  then show ?case by simp
next
  case (Cons r rs)
  from Cons.prems obtain st outs s1 where
    one: "Run_request E r s = Some (st, outs, s1)" and rest: "Run_all E rs s1 = Some s'"
    by (auto split: option.splits)
  note f = Run_frame [OF one [unfolded Run_request_def]]
  note IH = Cons.IH [OF rest]
  have same: "reaches_reshape s1 q = reaches_reshape s q" for q
    using f(1) by (simp add: reaches_reshape_def passes_checks_def)
  from f(4) have "reaches_reshape s r \<Longrightarrow> determined_batch (req_inputs r) \<le> m_batch_size s1"
    by (simp add: reaches_reshape_def)
  with IH f(1,3) same show ?case by fastforce
qed

text \<open>
  C4. After any finite sequence of returning \<^verbatim>\<open>Run\<close> calls on a freshly constructed
  session, the capacity is at least the initial estimate (the result of
  \<^verbatim>\<open>BatchSizeOf\<close>, which the constructor stored) and at least the batch size determined
  by every call of the sequence that reached the reshape step.
\<close>

theorem C4_capacity_after_runs:
  assumes "CaffeServingSession E graph = Some s0" and "Run_all E rs s0 = Some s'"
  shows "BatchSizeOf (m_net s0) = Some (m_batch_size s0)
     \<and> m_batch_size s0 \<le> m_batch_size s'
     \<and> (\<forall>r\<in>set rs. reaches_reshape s0 r \<longrightarrow> determined_batch (req_inputs r) \<le> m_batch_size s')"
proof -
  from assms(1) have "BatchSizeOf (m_net s0) = Some (m_batch_size s0)"
    by (auto simp: CaffeServingSession_def split: Option.bind_splits)
  with Run_all_capacity [OF assms(2)] show ?thesis by simp
qed

text \<open>
  On the demo session: a batch of two, then the batch of four that is rejected for its
  second input. The capacity ends at 4.
\<close>

theorem C4_capacity_after_runs_witness:
  "CaffeServingSession demo_engine () = Some demo_session
   \<and> Run_all demo_engine
       [\<lparr>req_inputs = demo_batch2, req_output_tensor_names = [''prob''],
          req_target_node_names = []\<rparr>,
        \<lparr>req_inputs = demo_mismatch, req_output_tensor_names = [''prob''],
          req_target_node_names = []\<rparr>]
       demo_session
     = Some (demo_session
           \<lparr>m_net := demo_net\<lparr>blobs := [\<lparr>shape = [4, 2], data = [1, 2, 3, 4, 5, 6, 7, 8]\<rparr>,
                                         \<lparr>shape = [4, 1], data = replicate 4 0\<rparr>,
                                         \<lparr>shape = [4, 2], data = replicate 8 0\<rparr>],
                               forward_passes := 1\<rparr>,
             m_batch_size := 4\<rparr>)
   \<and> BatchSizeOf (m_net demo_session) = Some (m_batch_size demo_session)
   \<and> m_batch_size demo_session \<le> 4
   \<and> reaches_reshape demo_session
        \<lparr>req_inputs = demo_batch2, req_output_tensor_names = [''prob''],
          req_target_node_names = []\<rparr>
   \<and> reaches_reshape demo_session
        \<lparr>req_inputs = demo_mismatch, req_output_tensor_names = [''prob''],
          req_target_node_names = []\<rparr>
   \<and> determined_batch demo_batch2 \<le> 4
   \<and> determined_batch demo_mismatch \<le> 4"
proof -
  have fresh: "CaffeServingSession demo_engine () = Some demo_session"
    by (simp add: demo_defs CaffeServingSession_def BatchSizeOf_def vector_at_def emplace_def)
  have runs: "Run_all demo_engine
       [\<lparr>req_inputs = demo_batch2, req_output_tensor_names = [''prob''],
          req_target_node_names = []\<rparr>,
        \<lparr>req_inputs = demo_mismatch, req_output_tensor_names = [''prob''],
          req_target_node_names = []\<rparr>]
       demo_session
     = Some (demo_session
           \<lparr>m_net := demo_net\<lparr>blobs := [\<lparr>shape = [4, 2], data = [1, 2, 3, 4, 5, 6, 7, 8]\<rparr>,
                                         \<lparr>shape = [4, 1], data = replicate 4 0\<rparr>,
                                         \<lparr>shape = [4, 2], data = replicate 8 0\<rparr>],
                               forward_passes := 1\<rparr>,
             m_batch_size := 4\<rparr>)"
    by (simp add: demo_defs run_defs demo_batch2_def demo_mismatch_def Run_request_def)
  have reach: "reaches_reshape demo_session
        \<lparr>req_inputs = demo_batch2, req_output_tensor_names = [''prob''],
          req_target_node_names = []\<rparr>"
    "reaches_reshape demo_session
        \<lparr>req_inputs = demo_mismatch, req_output_tensor_names = [''prob''],
          req_target_node_names = []\<rparr>"
    by (simp_all add: reaches_reshape_def passes_checks_def determined_batch_def
        uint_of_int64_def demo_batch2_def demo_mismatch_def demo_session_def)
  from C4_capacity_after_runs [OF fresh runs] fresh runs reach show ?thesis
    by simp
qed

lemma BatchSizeOf_loop_ge: "BatchSizeOf_loop bs idxs x = Some y \<Longrightarrow> x \<le> y"
proof (induction idxs arbitrary: x)
  case Nil
  then show ?case by simp
next
  case (Cons idx idxs)
  from Cons.prems obtain x' where "BatchSizeOf_loop bs idxs x' = Some y" and "x \<le> x'"
    by (auto split: option.splits if_splits)
  with Cons.IH show ?case by fastforce
qed

lemma constructed_capacity: "CaffeServingSession E graph = Some s \<Longrightarrow> 1 \<le> m_batch_size s"
proof -
  assume "CaffeServingSession E graph = Some s"
  then have "BatchSizeOf (m_net s) = Some (m_batch_size s)"
    by (auto simp: CaffeServingSession_def split: Option.bind_splits)
  then show ?thesis unfolding BatchSizeOf_def by (rule BatchSizeOf_loop_ge)
qed

lemma CopyTrained_capacity:
  "CopyTrainedLayersFromBinaryProto E f s = Some (st, s') \<Longrightarrow> m_batch_size s' = m_batch_size s"
  by (auto simp: CopyTrainedLayersFromBinaryProto_def split: option.splits)

lemma do_call_capacity:
  assumes "do_call E c s = Some s'" and "1 \<le> m_batch_size s"
  shows "1 \<le> m_batch_size s'"
proof (cases c)
  case (CallRun r)
  with assms(1) obtain st outs where "Run_request E r s = Some (st, outs, s')"
    by auto
  from Run_frame(3) [OF this [unfolded Run_request_def]] assms(2) show ?thesis by simp
next
  case (CallReshape b)
  with assms(1) obtain st where r: "Reshape E b s = Some (st, s')" by auto
  from Reshape_cases [OF r] assms(2) show ?thesis by auto
next
  case (CallCopyTrainedLayers f)
  with assms(1) obtain st where "CopyTrainedLayersFromBinaryProto E f s = Some (st, s')" by auto
  from CopyTrained_capacity [OF this] assms(2) show ?thesis by simp
qed

lemma do_calls_capacity:
  "do_calls E cs s = Some s' \<Longrightarrow> 1 \<le> m_batch_size s \<Longrightarrow> 1 \<le> m_batch_size s'"
proof (induction cs arbitrary: s)
  case Nil
  then show ?case by simp
next
  case (Cons c cs)
  from Cons.prems(1) obtain s1 where one: "do_call E c s = Some s1" and rest: "do_calls E cs s1 = Some s'"
    by (auto split: option.splits)
  from do_call_capacity [OF one Cons.prems(2)] show ?case by (rule Cons.IH [OF rest])
qed

text \<open>
  C2, as amended. The capacity is at least 1 after every sequence of returning calls of
  \<^verbatim>\<open>Run\<close>, \<^verbatim>\<open>Reshape\<close> and \<^verbatim>\<open>CopyTrainedLayersFromBinaryProto\<close> on a freshly
  constructed session. \<^verbatim>\<open>Run\<close> never decreases it and loading the trained layers leaves
  it as it is. \<^verbatim>\<open>Reshape(c)\<close> with \<open>c \<ge> 1\<close> sets it to exactly \<open>c\<close>, also when \<open>c\<close> is
  below the current capacity.
\<close>

theorem C2_capacity:
  "(CaffeServingSession E graph = Some s0 \<and> do_calls E cs s0 = Some s' \<longrightarrow> 1 \<le> m_batch_size s')
   \<and> (Run E inputs output_tensor_names target_node_names outputs s = Some (st1, outs, s1)
        \<longrightarrow> m_batch_size s \<le> m_batch_size s1)
   \<and> (CopyTrainedLayersFromBinaryProto E trained_filename s = Some (st2, s2)
        \<longrightarrow> m_batch_size s2 = m_batch_size s)
   \<and> (1 \<le> c \<and> Reshape E c s = Some (st3, s3) \<longrightarrow> st3 = OK \<and> m_batch_size s3 = c)"
proof (intro conjI impI)
  assume "CaffeServingSession E graph = Some s0 \<and> do_calls E cs s0 = Some s'"
  then have a: "CaffeServingSession E graph = Some s0" and b: "do_calls E cs s0 = Some s'"
    by simp_all
  from b constructed_capacity [OF a] show "1 \<le> m_batch_size s'"
    by (rule do_calls_capacity)
next
  assume "Run E inputs output_tensor_names target_node_names outputs s = Some (st1, outs, s1)"
  then show "m_batch_size s \<le> m_batch_size s1" by (rule Run_frame(3))
next
  assume "CopyTrainedLayersFromBinaryProto E trained_filename s = Some (st2, s2)"
  then show "m_batch_size s2 = m_batch_size s" by (rule CopyTrained_capacity)
next
  assume h: "1 \<le> c \<and> Reshape E c s = Some (st3, s3)"
  then have r: "Reshape E c s = Some (st3, s3)" and c: "1 \<le> c" by simp_all
  from Reshape_frame(5) [OF r c] show "st3 = OK" and "m_batch_size s3 = c" by simp_all
qed

theorem C2_capacity_witness:
  "(CaffeServingSession demo_engine () = Some demo_session
    \<and> do_calls demo_engine
         [CallReshape 4, CallReshape 0, CallCopyTrainedLayers ''missing.caffemodel'',
          CallRun \<lparr>req_inputs = demo_batch2, req_output_tensor_names = [''prob''],
                   req_target_node_names = []\<rparr>]
         demo_session
       = Some (demo_session
           \<lparr>m_net := demo_net\<lparr>blobs := [\<lparr>shape = [4, 2], data = [1, 2, 3, 4] @ replicate 4 0\<rparr>,
                                         \<lparr>shape = [4, 1], data = [5, 6] @ replicate 2 0\<rparr>,
                                         \<lparr>shape = [4, 2], data = [1, 2, 3, 4] @ replicate 4 0\<rparr>],
                               forward_passes := 1\<rparr>,
             m_batch_size := 4\<rparr>))
   \<and> (1::nat) \<le> 4
   \<and> Run demo_engine demo_batch2 [''prob''] [] [] demo_session
       = Some (OK, [\<lparr>dims = [2, 2], vals = [1, 2, 3, 4]\<rparr>],
           demo_session
             \<lparr>m_net := demo_net\<lparr>blobs := [\<lparr>shape = [2, 2], data = [1, 2, 3, 4]\<rparr>,
                                           \<lparr>shape = [2, 1], data = [5, 6]\<rparr>,
                                           \<lparr>shape = [2, 2], data = [1, 2, 3, 4]\<rparr>],
                                 forward_passes := 1\<rparr>,
               m_batch_size := 2\<rparr>)
   \<and> m_batch_size demo_session \<le> 2
   \<and> CopyTrainedLayersFromBinaryProto demo_engine ''weights.caffemodel'' demo_session
       = Some (OK, demo_session)
   \<and> Reshape demo_engine 4 demo_session
       = Some (OK, demo_session
           \<lparr>m_net := demo_net\<lparr>blobs := [\<lparr>shape = [4, 2], data = replicate 8 0\<rparr>,
                                         \<lparr>shape = [4, 1], data = replicate 4 0\<rparr>,
                                         \<lparr>shape = [4, 2], data = replicate 8 0\<rparr>]\<rparr>,
             m_batch_size := 4\<rparr>)"
proof -
  have fresh: "CaffeServingSession demo_engine () = Some demo_session"
    by (simp add: demo_defs CaffeServingSession_def BatchSizeOf_def vector_at_def emplace_def)
  have seq: "do_calls demo_engine
         [CallReshape 4, CallReshape 0, CallCopyTrainedLayers ''missing.caffemodel'',
          CallRun \<lparr>req_inputs = demo_batch2, req_output_tensor_names = [''prob''],
                   req_target_node_names = []\<rparr>]
         demo_session
       = Some (demo_session
           \<lparr>m_net := demo_net\<lparr>blobs := [\<lparr>shape = [4, 2], data = [1, 2, 3, 4] @ replicate 4 0\<rparr>,
                                         \<lparr>shape = [4, 1], data = [5, 6] @ replicate 2 0\<rparr>,
                                         \<lparr>shape = [4, 2], data = [1, 2, 3, 4] @ replicate 4 0\<rparr>],
                               forward_passes := 1\<rparr>,
             m_batch_size := 4\<rparr>)"
    by (simp add: demo_defs run_defs demo_batch2_def Run_request_def
        CopyTrainedLayersFromBinaryProto_def)
  have run: "Run demo_engine demo_batch2 [''prob''] [] [] demo_session
       = Some (OK, [\<lparr>dims = [2, 2], vals = [1, 2, 3, 4]\<rparr>],
           demo_session
             \<lparr>m_net := demo_net\<lparr>blobs := [\<lparr>shape = [2, 2], data = [1, 2, 3, 4]\<rparr>,
                                           \<lparr>shape = [2, 1], data = [5, 6]\<rparr>,
                                           \<lparr>shape = [2, 2], data = [1, 2, 3, 4]\<rparr>],
                                 forward_passes := 1\<rparr>,
               m_batch_size := 2\<rparr>)"
    by (simp add: demo_defs run_defs demo_batch2_def)
  have load: "CopyTrainedLayersFromBinaryProto demo_engine ''weights.caffemodel'' demo_session
       = Some (OK, demo_session)"
    by (simp add: demo_defs CopyTrainedLayersFromBinaryProto_def Net_CopyTrainedLayersFrom_def)
  have resh: "(1::nat) \<le> 4 \<and> Reshape demo_engine 4 demo_session
       = Some (OK, demo_session
           \<lparr>m_net := demo_net\<lparr>blobs := [\<lparr>shape = [4, 2], data = replicate 8 0\<rparr>,
                                         \<lparr>shape = [4, 1], data = replicate 4 0\<rparr>,
                                         \<lparr>shape = [4, 2], data = replicate 8 0\<rparr>]\<rparr>,
             m_batch_size := 4\<rparr>)"
    by (simp add: demo_defs run_defs)
  note all = C2_capacity [where E = demo_engine and graph = "()" and ?s0.0 = demo_session
      and s = demo_session and c = 4]
  note a = all [THEN conjunct1, rule_format, OF conjI [OF fresh seq]]
  note b = all [THEN conjunct2, THEN conjunct1, rule_format, OF run]
  note c = all [THEN conjunct2, THEN conjunct2, THEN conjunct1, rule_format, OF load]
  note d = all [THEN conjunct2, THEN conjunct2, THEN conjunct2, rule_format, OF resh]
  from a b c d fresh seq run load resh show ?thesis by simp
qed

text \<open>
  The claim as stated fails: on the freshly constructed demo session, \<^verbatim>\<open>Reshape(4)\<close>
  followed by \<^verbatim>\<open>Reshape(1)\<close> brings the capacity from 4 down to 1.
\<close>

theorem C2_capacity_counterexample:
  "CaffeServingSession demo_engine () = Some demo_session
   \<and> map_option m_batch_size (do_calls demo_engine [CallReshape 4] demo_session) = Some 4
   \<and> map_option m_batch_size (do_calls demo_engine [CallReshape 4, CallReshape 1] demo_session)
       = Some 1"
  by (simp add: demo_defs run_defs CaffeServingSession_def BatchSizeOf_def emplace_def)

subsection \<open>Loading the trained layers\<close>

text \<open>
  C10. When the file of trained parameters cannot be read or parsed,
  \<^verbatim>\<open>CopyTrainedLayersFromBinaryProto\<close> returns an InvalidArgument error and the session,
  with every buffer and every layer parameter of its network, is as it was: nothing is
  copied.
\<close>

theorem C10_load_failure:
  "ReadProtoFromBinaryFile E trained_filename = None
   \<Longrightarrow> CopyTrainedLayersFromBinaryProto E trained_filename s
       = Some (InvalidArgument (LoadFailed trained_filename), s)"
  by (simp add: CopyTrainedLayersFromBinaryProto_def)

theorem C10_load_failure_witness:
  "ReadProtoFromBinaryFile demo_engine ''missing.caffemodel'' = None
   \<and> CopyTrainedLayersFromBinaryProto demo_engine ''missing.caffemodel'' demo_session
       = Some (InvalidArgument (LoadFailed ''missing.caffemodel''), demo_session)"
proof -
  have h: "ReadProtoFromBinaryFile demo_engine ''missing.caffemodel'' = None"
    by (simp add: demo_engine_def)
  from C10_load_failure [OF h] h show ?thesis by simp
qed

end
